theory Spec2Isabelle
  imports Main
begin

section \<open>Go values shared by the models\<close>

text \<open>
  A Go \<open>error\<close> is represented by its message; a type mismatch found by
  \<open>encoding/json\<close> is kept as the fields \<open>Value\<close> (the kind of the JSON value) and
  \<open>Type\<close> (the Go type) of its \<open>UnmarshalTypeError\<close>. Instants (\<open>time.Time\<close>) are
  nanoseconds since the Unix epoch; a \<open>time.Duration\<close> is an \<open>int64\<close> count of
  nanoseconds, so its arithmetic wraps around at 64 bits and its division truncates
  towards zero.
\<close>

datatype error = Error string | UnmarshalTypeError string string

type_synonym time = int
type_synonym duration = int

definition minInt64 :: int where
  "minInt64 = - (2 ^ 63)"

definition maxInt64 :: int where
  "maxInt64 = 2 ^ 63 - 1"

definition wrap64 :: "int \<Rightarrow> int" where
  "wrap64 x = (x + 2 ^ 63) mod 2 ^ 64 - 2 ^ 63"

definition mul64 :: "int \<Rightarrow> int \<Rightarrow> int" where
  "mul64 a b = wrap64 (a * b)"

definition quot64 :: "int \<Rightarrow> int \<Rightarrow> int" where
  "quot64 a b = wrap64 (sgn a * sgn b * (\<bar>a\<bar> div \<bar>b\<bar>))"

text \<open>\<open>t.Sub(u)\<close> saturates at the smallest and largest \<open>Duration\<close>;
  \<open>time.Until(t)\<close> is \<open>t.Sub(time.Now())\<close>.\<close>

definition Sub :: "time \<Rightarrow> time \<Rightarrow> duration" where
  "Sub t u = (if t - u > maxInt64 then maxInt64
              else if t - u < minInt64 then minInt64 else t - u)"

definition Until :: "time \<Rightarrow> time \<Rightarrow> duration" where
  "Until now t = Sub t now"

text \<open>\<open>strings.TrimPrefix(s, prefix)\<close>.\<close>

definition TrimPrefix :: "string \<Rightarrow> string \<Rightarrow> string" where
  "TrimPrefix s pre = (if take (length pre) s = pre then drop (length pre) s else s)"

section \<open>The token refresh scheduler (\<open>Actor.ScheduleTokenRefresh\<close>)\<close>

text \<open>
  The collaborators of \<open>ScheduleTokenRefresh\<close> are outside the function and are taken
  as an environment: \<open>RefreshAccessToken env k\<close> is what the \<open>k\<close>-th call (counted from
  0) of \<open>actor.RefreshAccessToken(actor.Config.RefreshToken())\<close> returns,
  \<open>ParseJWT\<close> is \<open>jws.ParseJWT\<close>, and \<open>Now\<close> is the clock read by \<open>time.Until\<close>.
  Of a parsed token only \<open>token.Claims().Expiration()\<close> is used: \<open>Expiration\<close> is
  \<open>Some t\<close> when the second result \<open>ok\<close> is true.
\<close>

record jwt =
  Expiration :: "time option"

record env =
  RefreshAccessToken :: "nat \<Rightarrow> error + string"
  ParseJWT :: "string \<Rightarrow> error + jwt"
  Now :: time

text \<open>\<open>timeToRefresh = expiresIn * 9 / 10\<close> on \<open>time.Duration\<close>.\<close>

definition timeToRefresh :: "duration \<Rightarrow> duration" where
  "timeToRefresh expiresIn = quot64 (mul64 expiresIn 9) 10"

text \<open>
  The part of \<open>ScheduleTokenRefresh\<close> that runs before the goroutine is started;
  the argument \<open>tickerChan\<close> is read by the goroutine only, and is an argument
  of \<open>goroutine\<close> below.
  \<open>Inl\<close> is the returned error (with a nil channel, and no goroutine); \<open>Inr d\<close>
  means that the goroutine was started with \<open>timeToRefresh = d\<close> and the quit
  channel was returned. The second component counts the calls of
  \<open>RefreshAccessToken\<close> made on the way.
\<close>

definition ScheduleTokenRefresh :: "env \<Rightarrow> (error + duration) \<times> nat" where
  "ScheduleTokenRefresh env =
     (case RefreshAccessToken env 0 of
        Inl err \<Rightarrow> (Inl err, 1)
      | Inr accessTokenString \<Rightarrow>
          (case ParseJWT env (TrimPrefix accessTokenString ''bearer '') of
             Inl err \<Rightarrow> (Inl err, 1)
           | Inr token \<Rightarrow>
               (case Expiration token of
                  Some expiration \<Rightarrow> (Inr (timeToRefresh (Until (Now env) expiration)), 1)
                | None \<Rightarrow>
                    (Inl (Error ''Failed to get an expiry time from the current access token''), 1))))"

text \<open>
  The goroutine. A tick channel is the sequence of the instants it delivers.
  \<open>time.NewTicker(d)\<close> panics when \<open>d \<le> 0\<close>; otherwise its channel delivers a tick
  every \<open>d\<close> after its creation at \<open>t1\<close>. The \<open>select\<close> picks, at each iteration, a
  tick or the quit signal: the picks are the event list. An unrecovered panic of a
  goroutine ends the whole Go process.
\<close>

datatype event = Tick | QuitNow

datatype outcome = Blocked | Returned | Panicked error

definition NewTicker :: "time \<Rightarrow> duration \<Rightarrow> error + (nat \<Rightarrow> time)" where
  "NewTicker t1 d =
     (if d \<le> 0 then Inl (Error ''non-positive interval for NewTicker'')
      else Inr (\<lambda>k. t1 + (int k + 1) * d))"

text \<open>
  \<open>refresh_loop refresh chan k evs\<close>: the \<open>for { select { ... } }\<close> loop after \<open>k\<close>
  ticks. It returns how the goroutine ends (\<open>Blocked\<close>: it waits in \<open>select\<close> and
  nothing more arrives) and the instants at which it called \<open>RefreshAccessToken\<close>.
  The refreshed token is dropped (\<open>_, err := ...\<close>).
\<close>

fun refresh_loop ::
  "(nat \<Rightarrow> error + string) \<Rightarrow> (nat \<Rightarrow> time) \<Rightarrow> nat \<Rightarrow> event list \<Rightarrow> outcome \<times> time list" where
  "refresh_loop refresh chan k [] = (Blocked, [])"
| "refresh_loop refresh chan k (QuitNow # evs) = (Returned, [])"
| "refresh_loop refresh chan k (Tick # evs) =
     (case refresh (Suc k) of
        Inl err \<Rightarrow> (Panicked err, [chan k])
      | Inr _ \<Rightarrow>
          (case refresh_loop refresh chan (Suc k) evs of
             (out, ts) \<Rightarrow> (out, chan k # ts)))"

definition goroutine ::
  "env \<Rightarrow> (nat \<Rightarrow> time) option \<Rightarrow> duration \<Rightarrow> time \<Rightarrow> event list \<Rightarrow> outcome \<times> time list" where
  "goroutine env tickerChan d t1 evs =
     (case tickerChan of
        None \<Rightarrow>
          (case NewTicker t1 d of
             Inl err \<Rightarrow> (Panicked err, [])
           | Inr C \<Rightarrow> refresh_loop (RefreshAccessToken env) C 0 evs)
      | Some chan \<Rightarrow> refresh_loop (RefreshAccessToken env) chan 0 evs)"

definition process_terminated :: "outcome \<Rightarrow> bool" where
  "process_terminated out = (case out of Panicked _ \<Rightarrow> True | _ \<Rightarrow> False)"

text \<open>
  The whole call: the error returned to the caller, or what the goroutine it started
  does on the events \<open>evs\<close> (with its own ticker created at \<open>t1\<close> when
  \<open>tickerChan\<close> is nil).
\<close>

definition TokenRefreshScheduler ::
  "env \<Rightarrow> (nat \<Rightarrow> time) option \<Rightarrow> time \<Rightarrow> event list \<Rightarrow> error + outcome \<times> time list" where
  "TokenRefreshScheduler env tickerChan t1 evs =
     (case fst (ScheduleTokenRefresh env) of
        Inl err \<Rightarrow> Inl err
      | Inr d \<Rightarrow> Inr (goroutine env tickerChan d t1 evs))"

text \<open>
  The delay that a rescheduling loop would use after a refresh at \<open>now\<close> returned
  \<open>accessTokenString\<close>: 90% of that token's remaining time to expiry, computed as
  \<open>ScheduleTokenRefresh\<close> computes its first delay. The loop above never computes it;
  it is here to compare the two.
\<close>

definition rescheduled_delay :: "env \<Rightarrow> string \<Rightarrow> time \<Rightarrow> duration option" where
  "rescheduled_delay env accessTokenString now =
     (case ParseJWT env (TrimPrefix accessTokenString ''bearer '') of
        Inl _ \<Rightarrow> None
      | Inr token \<Rightarrow>
          (case Expiration token of
             None \<Rightarrow> None
           | Some expiration \<Rightarrow> Some (timeToRefresh (Until now expiration))))"

text \<open>
  An environment for examples: the refresh responses in call order (a call past the
  end fails), and the parseable tokens with their \<open>exp\<close> claims.
\<close>

definition example_env :: "(error + string) list \<Rightarrow> (string \<times> time option) list \<Rightarrow> time \<Rightarrow> env" where
  "example_env responses tokens now =
     \<lparr>RefreshAccessToken =
        (\<lambda>k. if k < length responses then responses ! k else Inl (Error ''connection refused'')),
      ParseJWT =
        (\<lambda>s. case map_of tokens s of
                None \<Rightarrow> Inl (Error ''malformed token'')
              | Some e \<Rightarrow> Inr \<lparr>Expiration = e\<rparr>),
      Now = now\<rparr>"

text \<open>A tick source for examples: ticks at 5, 12, 19, ...\<close>

definition example_ticks :: "nat \<Rightarrow> time" where
  "example_ticks k = 5 + 7 * int k"

section \<open>The requester (\<open>RealRequester.MakeRequest\<close>)\<close>

text \<open>
  \<open>requestParams\<close> and \<open>requestOptions\<close> as the source declares and fills them; a
  nil \<open>interface{}\<close> is \<open>None\<close>. Of \<open>cloudcontroller.Response\<close> the fields the
  source reads or writes are kept. A nil \<open>Warnings\<close> slice is the empty list.
\<close>

type_synonym JobURL = string
type_synonym Warnings = "string list"
type_synonym Query = "string \<times> string list"

record ('b, 'r) requestParams =
  RequestName :: string
  URIParams :: "(string \<times> string) list"
  Query :: "Query list"
  RequestBody :: "'b option"
  ResponseBody :: "'r option"

record requestOptions =
  optRequestName :: string
  optURIParams :: "(string \<times> string) list"
  optQuery :: "Query list"
  optBody :: "string option"

record 'r Response =
  DecodeJSONResponseInto :: "'r option"
  ResponseWarnings :: Warnings
  ResourceLocationURL :: string

text \<open>
  What \<open>MakeRequest\<close> calls and the source does not define: \<open>json.Marshal\<close> on the
  request body, \<open>client.NewHTTPRequest\<close>, and the HTTP exchange
  \<open>client.Connection.Make(request, &response)\<close>. An exchange acts on the world
  outside the program (the server, and the body reader inside the request): it
  takes the state \<open>'w\<close> of that world and the response struct it is given, and
  returns its error, the struct as it filled it, and the new state.
\<close>

record ('b, 'r, 'q, 'w) Client =
  Marshal :: "'b \<Rightarrow> error + string"
  NewHTTPRequest :: "requestOptions \<Rightarrow> error + 'q"
  ConnectionMake :: "'w \<Rightarrow> 'q \<Rightarrow> 'r Response \<Rightarrow> error option \<times> 'r Response \<times> 'w"

text \<open>\<open>response := cloudcontroller.Response{}\<close>, then
  \<open>if requestParams.ResponseBody != nil { response.DecodeJSONResponseInto = &requestParams.ResponseBody }\<close>.\<close>

definition newResponse :: "('b, 'r) requestParams \<Rightarrow> 'r Response" where
  "newResponse params =
     (let response = \<lparr>DecodeJSONResponseInto = None, ResponseWarnings = [], ResourceLocationURL = ''''\<rparr>
      in if ResponseBody params \<noteq> None
         then response\<lparr>DecodeJSONResponseInto := ResponseBody params\<rparr>
         else response)"

definition GetSingleResponse ::
  "('b, 'r, 'q, 'w) Client \<Rightarrow> ('b, 'r) requestParams \<Rightarrow> 'q \<Rightarrow> 'w
     \<Rightarrow> (JobURL \<times> Warnings \<times> error option) \<times> 'w" where
  "GetSingleResponse client params request w =
     (case ConnectionMake client w request (newResponse params) of
        (err, response, w') \<Rightarrow>
          ((ResourceLocationURL response, ResponseWarnings response, err), w'))"

definition MakeRequest ::
  "('b, 'r, 'q, 'w) Client \<Rightarrow> ('b, 'r) requestParams \<Rightarrow> 'w
     \<Rightarrow> (JobURL \<times> Warnings \<times> error option) \<times> 'w" where
  "MakeRequest client params w =
     (let options = \<lparr>optRequestName = RequestName params, optURIParams = URIParams params,
                     optQuery = Query params, optBody = None\<rparr>
      in case (case RequestBody params of
                 None \<Rightarrow> Inr options
               | Some b \<Rightarrow>
                   (case Marshal client b of
                      Inl err \<Rightarrow> Inl err
                    | Inr body \<Rightarrow> Inr (options\<lparr>optBody := Some body\<rparr>))) of
           Inl err \<Rightarrow> (('''', [], Some err), w)
         | Inr options \<Rightarrow>
             (case NewHTTPRequest client options of
                Inl err \<Rightarrow> (('''', [], Some err), w)
              | Inr request \<Rightarrow>
                  (case ConnectionMake client w request (newResponse params) of
                     (err, response, w') \<Rightarrow> GetSingleResponse client params request w')))"

text \<open>
  A client for examples. Its world is the number of exchanges made so far; the
  exchange number \<open>n\<close> answers with the job URL and the warning of that number, and
  the first exchange also fails. Requests are built for every name but the empty
  one.
\<close>

definition example_client :: "(string, string, string, nat) Client" where
  "example_client =
     \<lparr>Marshal = (\<lambda>b. Inr b),
      NewHTTPRequest =
        (\<lambda>options. if optRequestName options = '''' then Inl (Error ''no such request'')
                    else Inr (optRequestName options)),
      ConnectionMake =
        (\<lambda>n request response.
           (if n = 0 then Some (Error ''first exchange failed'') else None,
            response\<lparr>ResponseWarnings := [if n = 0 then ''warning 1'' else ''warning 2''],
                      ResourceLocationURL := (if n = 0 then ''job 1'' else ''job 2'')\<rparr>,
            Suc n))\<rparr>"

section \<open>JSON documents and \<open>Relationship\<close>\<close>

text \<open>
  A JSON text is represented by the document it denotes: \<open>json.Marshal\<close> returns
  such a document and the decoder takes one. A \<open>JString\<close> holds the bytes of the
  text the string literal denotes, escapes resolved; a number keeps its literal.
\<close>

datatype json =
    JNull
  | JBool bool
  | JNumber string
  | JString string
  | JArray "json list"
  | JObject "(string \<times> json) list"

subsection \<open>Go strings in JSON\<close>

text \<open>
  A Go string is a sequence of bytes. \<open>encoding/json\<close> writes a string coerced to
  valid UTF-8: its encoder walks the string with \<open>utf8.DecodeRuneInString\<close> and
  writes the escape of U+FFFD for every byte where that returns \<open>(RuneError, 1)\<close>.
  \<open>DecodeRuneSize s\<close> is the size of the well-formed encoding at the head of \<open>s\<close>,
  after the tables of package \<open>utf8\<close>; \<open>None\<close> stands for \<open>(RuneError, 1)\<close>.
\<close>

definition between :: "nat \<Rightarrow> nat \<Rightarrow> char \<Rightarrow> bool" where
  "between lo hi c = (lo \<le> of_char c \<and> (of_char c :: nat) \<le> hi)"

fun DecodeRuneSize :: "string \<Rightarrow> nat option" where
  "DecodeRuneSize [] = None"
| "DecodeRuneSize (c0 # cs) =
     (let b0 = (of_char c0 :: nat) in
      if b0 < 0x80 then Some 1
      else if b0 < 0xC2 then None
      else if b0 < 0xE0 then
        (case cs of
           c1 # _ \<Rightarrow> if between 0x80 0xBF c1 then Some 2 else None
         | _ \<Rightarrow> None)
      else if b0 < 0xF0 then
        (case cs of
           c1 # c2 # _ \<Rightarrow>
             if between (if b0 = 0xE0 then 0xA0 else 0x80) (if b0 = 0xED then 0x9F else 0xBF) c1
                \<and> between 0x80 0xBF c2
             then Some 3 else None
         | _ \<Rightarrow> None)
      else if b0 < 0xF5 then
        (case cs of
           c1 # c2 # c3 # _ \<Rightarrow>
             if between (if b0 = 0xF0 then 0x90 else 0x80) (if b0 = 0xF4 then 0x8F else 0xBF) c1
                \<and> between 0x80 0xBF c2 \<and> between 0x80 0xBF c3
             then Some 4 else None
         | _ \<Rightarrow> None)
      else None)"

text \<open>\<open>utf8.ValidString\<close>.\<close>

fun ValidString :: "string \<Rightarrow> bool" where
  "ValidString [] = True"
| "ValidString (c # cs) =
     (case DecodeRuneSize (c # cs) of
        None \<Rightarrow> False
      | Some n \<Rightarrow> ValidString (drop (n - 1) cs))"

text \<open>The text of the string literal that \<open>json.Marshal\<close> writes for a Go string:
  U+FFFD (the bytes EF BF BD) in place of every byte that starts no well-formed
  encoding, everything else as it is.\<close>

fun jsonStringText :: "string \<Rightarrow> string" where
  "jsonStringText [] = []"
| "jsonStringText (c # cs) =
     (case DecodeRuneSize (c # cs) of
        None \<Rightarrow> [CHR 0xEF, CHR 0xBF, CHR 0xBD] @ jsonStringText cs
      | Some n \<Rightarrow> c # take (n - 1) cs @ jsonStringText (drop (n - 1) cs))"

subsection \<open>Decoding into the struct of \<open>UnmarshalJSON\<close>\<close>

text \<open>
  \<open>cloudcontroller.DecodeJSON(data, &ccRelationship)\<close> is not among the sources; it
  is taken to be \<open>encoding/json\<close>'s decoding of the document into the struct it is
  given, here \<open>struct { Data struct { GUID string `json:"guid"` } `json:"data"` }\<close>.
  That decoding matches an object key to a field by its name, letter case ignored;
  handles the members in their order, a later one overwriting; leaves a field as it
  is on \<open>null\<close>; and fails with an \<open>UnmarshalTypeError\<close> on a value of another
  type than the field's. The only content of the struct is its \<open>GUID\<close>, which the
  functions below pass along.
\<close>

fun jsonKind :: "json \<Rightarrow> string" where
  "jsonKind JNull = ''null''"
| "jsonKind (JBool _) = ''bool''"
| "jsonKind (JNumber _) = ''number''"
| "jsonKind (JString _) = ''string''"
| "jsonKind (JArray _) = ''array''"
| "jsonKind (JObject _) = ''object''"

definition asciiLower :: "char \<Rightarrow> char" where
  "asciiLower c =
     (if (65::nat) \<le> of_char c \<and> (of_char c :: nat) \<le> 90 then char_of (of_char c + (32::nat)) else c)"

definition equalFold :: "string \<Rightarrow> string \<Rightarrow> bool" where
  "equalFold s t = (map asciiLower s = map asciiLower t)"

fun decodeFields ::
  "string \<Rightarrow> (string \<Rightarrow> json \<Rightarrow> error + string) \<Rightarrow> string \<Rightarrow> (string \<times> json) list
     \<Rightarrow> error + string" where
  "decodeFields name dec g [] = Inr g"
| "decodeFields name dec g ((k, v) # kvs) =
     (if equalFold k name then
        (case dec g v of
           Inl err \<Rightarrow> Inl err
         | Inr g' \<Rightarrow> decodeFields name dec g' kvs)
      else decodeFields name dec g kvs)"

fun decodeGUID :: "string \<Rightarrow> json \<Rightarrow> error + string" where
  "decodeGUID g (JString s) = Inr s"
| "decodeGUID g JNull = Inr g"
| "decodeGUID g v = Inl (UnmarshalTypeError (jsonKind v) ''string'')"

fun decodeData :: "string \<Rightarrow> json \<Rightarrow> error + string" where
  "decodeData g (JObject kvs) = decodeFields ''guid'' decodeGUID g kvs"
| "decodeData g JNull = Inr g"
| "decodeData g v = Inl (UnmarshalTypeError (jsonKind v) ''struct { GUID string }'')"

fun DecodeJSON :: "json \<Rightarrow> string \<Rightarrow> error + string" where
  "DecodeJSON (JObject kvs) g = decodeFields ''data'' decodeData g kvs"
| "DecodeJSON JNull g = Inr g"
| "DecodeJSON v g = Inl (UnmarshalTypeError (jsonKind v) ''struct { Data struct { GUID string } }'')"

subsection \<open>\<open>Relationship\<close>\<close>

record Relationship =
  GUID :: string

text \<open>\<open>MarshalJSON\<close>: the struct with \<open>Data interface{}\<close> left nil marshals to
  \<open>{"data":null}\<close>, the other to \<open>{"data":{"guid":...}}\<close>. \<open>json.Marshal\<close> does
  not fail on either.\<close>

definition MarshalJSON :: "Relationship \<Rightarrow> error + json" where
  "MarshalJSON r =
     (if GUID r = '''' then Inr (JObject [(''data'', JNull)])
      else Inr (JObject [(''data'', JObject [(''guid'', JString (jsonStringText (GUID r)))])]))"

text \<open>\<open>UnmarshalJSON\<close>: the receiver after the call, or the error (the receiver is
  then untouched). \<open>ccRelationship\<close> starts as the zero value.\<close>

definition UnmarshalJSON :: "Relationship \<Rightarrow> json \<Rightarrow> error + Relationship" where
  "UnmarshalJSON r data =
     (case DecodeJSON data '''' of
        Inl err \<Rightarrow> Inl err
      | Inr guid \<Rightarrow> Inr (r\<lparr>GUID := guid\<rparr>))"

section \<open>Library functions used by the log-cache test and the tail engine\<close>

subsection \<open>\<open>strconv\<close>\<close>

text \<open>\<open>strconv.FormatInt(i, 10)\<close> and \<open>strconv.ParseInt(s, 10, 64)\<close>; \<open>None\<close>
  stands for the \<open>*NumError\<close> of the latter (bad syntax, or a value out of the range
  of \<open>int64\<close>).\<close>

definition digitChar :: "int \<Rightarrow> char" where
  "digitChar d = char_of (48 + d)"

function formatNat :: "int \<Rightarrow> string" where
  "formatNat n = (if n < 10 then [digitChar n] else formatNat (n div 10) @ [digitChar (n mod 10)])"
  by pat_completeness auto
termination
  by (relation "measure nat") auto

declare formatNat.simps [simp del]

definition FormatInt :: "int \<Rightarrow> string" where
  "FormatInt i = (if i < 0 then CHR ''-'' # formatNat (- i) else formatNat i)"

definition isDigit :: "char \<Rightarrow> bool" where
  "isDigit c = ((48::int) \<le> of_char c \<and> (of_char c :: int) \<le> 57)"

definition parseDigits :: "string \<Rightarrow> int option" where
  "parseDigits s =
     (if s \<noteq> [] \<and> list_all isDigit s
      then Some (foldl (\<lambda>acc c. 10 * acc + (of_char c - 48)) 0 s)
      else None)"

definition ParseInt :: "string \<Rightarrow> int option" where
  "ParseInt s =
     (case (case s of
              c # cs \<Rightarrow>
                if c = CHR ''-'' then map_option uminus (parseDigits cs)
                else if c = CHR ''+'' then parseDigits cs
                else parseDigits s
            | [] \<Rightarrow> None) of
        None \<Rightarrow> None
      | Some i \<Rightarrow> if minInt64 \<le> i \<and> i \<le> maxInt64 then Some i else None)"

subsection \<open>\<open>encoding/base64\<close>, \<open>StdEncoding\<close>\<close>

definition encodeStd :: string where
  "encodeStd = ''ABCDEFGHIJKLMNOPQRSTUVWXYZabcdefghijklmnopqrstuvwxyz0123456789+/''"

definition b64char :: "int \<Rightarrow> char" where
  "b64char i = encodeStd ! nat (i mod 64)"

fun EncodeToString :: "string \<Rightarrow> string" where
  "EncodeToString [] = []"
| "EncodeToString [a] =
     (let v = of_char a * 65536 in
      [b64char (v div 262144), b64char (v div 4096), CHR ''='', CHR ''=''])"
| "EncodeToString [a, b] =
     (let v = of_char a * 65536 + of_char b * 256 in
      [b64char (v div 262144), b64char (v div 4096), b64char (v div 64), CHR ''=''])"
| "EncodeToString (a # b # c # rest) =
     (let v = of_char a * 65536 + of_char b * 256 + of_char c in
      [b64char (v div 262144), b64char (v div 4096), b64char (v div 64), b64char v]
      @ EncodeToString rest)"

fun indexOf :: "char \<Rightarrow> string \<Rightarrow> int option" where
  "indexOf c [] = None"
| "indexOf c (x # xs) = (if c = x then Some 0 else map_option (\<lambda>i. i + 1) (indexOf c xs))"

definition b64value :: "char \<Rightarrow> int option" where
  "b64value c = indexOf c encodeStd"

text \<open>\<open>DecodeString\<close> on the input without its line breaks: groups of four
  characters, padding only in the last group. \<open>None\<close> stands for its
  \<open>CorruptInputError\<close>.\<close>

fun decodeQuanta :: "string \<Rightarrow> string option" where
  "decodeQuanta [] = Some []"
| "decodeQuanta [c0, c1, c2, c3] =
     (case (b64value c0, b64value c1) of
        (Some v0, Some v1) \<Rightarrow>
          (if c2 = CHR ''='' \<and> c3 = CHR ''='' then
             Some [char_of ((v0 * 64 + v1) div 16)]
           else
             (case b64value c2 of
                Some v2 \<Rightarrow>
                  (if c3 = CHR ''='' then
                     (let v = (v0 * 64 + v1) * 64 + v2 in
                      Some [char_of (v div 1024), char_of (v div 4)])
                   else
                     (case b64value c3 of
                        Some v3 \<Rightarrow>
                          (let v = ((v0 * 64 + v1) * 64 + v2) * 64 + v3 in
                           Some [char_of (v div 65536), char_of (v div 256), char_of v])
                      | None \<Rightarrow> None))
              | None \<Rightarrow> None))
      | _ \<Rightarrow> None)"
| "decodeQuanta (c0 # c1 # c2 # c3 # rest) =
     (case (b64value c0, b64value c1, b64value c2, b64value c3) of
        (Some v0, Some v1, Some v2, Some v3) \<Rightarrow>
          (let v = ((v0 * 64 + v1) * 64 + v2) * 64 + v3 in
           map_option (\<lambda>bytes. [char_of (v div 65536), char_of (v div 256), char_of v] @ bytes)
             (decodeQuanta rest))
      | _ \<Rightarrow> None)"
| "decodeQuanta _ = None"

definition DecodeString :: "string \<Rightarrow> string option" where
  "DecodeString s = decodeQuanta (filter (\<lambda>c. c \<noteq> CHR 0x0A \<and> c \<noteq> CHR 0x0D) s)"

section \<open>The mock log cache of the \<open>logs\<close> integration test\<close>

text \<open>
  The handler that the test routes \<open>GET /api/v1/read/d5d27772-...\<close> to. It answers
  by the raw query string alone; its state is the flag \<open>returnEmptyEnvelope\<close>. It
  writes status 200 and one of three bodies, given here as the documents they
  denote, or fails the test on a query it does not know.
  \<open>time.Time{}\<close> is January 1 of year 1, at \<open>-62135596800\<close> Unix seconds;
  \<open>UnixNano\<close> multiplies that by \<open>1e9\<close> in \<open>int64\<close>.
\<close>

definition logMessage :: string where
  "logMessage = ''hello from log-cache''"

definition latestEnvelopeTimestamp :: string where
  "latestEnvelopeTimestamp = ''1581447006352020890''"

definition latestEnvelopeTimestampMinusOneSecond :: string where
  "latestEnvelopeTimestampMinusOneSecond = ''1581447005352020890''"

definition nextEnvelopeTimestamp :: string where
  "nextEnvelopeTimestamp = ''1581447009352020890''"

definition nextEnvelopeTimestampPlusOneNanosecond :: string where
  "nextEnvelopeTimestampPlusOneNanosecond = ''1581447009352020891''"

definition zeroTimeUnixNano :: int where
  "zeroTimeUnixNano = wrap64 (- 62135596800 * 1000000000)"

datatype reply = Body json | Fail string

definition handler :: "bool \<Rightarrow> string \<Rightarrow> reply \<times> bool" where
  "handler returnEmptyEnvelope RawQuery =
     (if RawQuery = ''descending=true&limit=1&start_time='' @ FormatInt zeroTimeUnixNano then
        (if returnEmptyEnvelope then (Body (JObject []), False)
         else
           (Body (JObject [(''envelopes'', JObject [(''batch'', JArray [
              JObject [(''timestamp'', JString latestEnvelopeTimestamp),
                       (''source_id'', JString ''d5d27772-315f-474b-8673-57e34ce2db2c'')]])])]),
            returnEmptyEnvelope))
      else if RawQuery = ''envelope_types=LOG&start_time='' @ latestEnvelopeTimestampMinusOneSecond then
        (Body (JObject [(''envelopes'', JObject [(''batch'', JArray [
           JObject [(''timestamp'', JString nextEnvelopeTimestamp),
                    (''source_id'', JString ''d5d27772-315f-474b-8673-57e34ce2db2c''),
                    (''tags'', JObject [(''__v1_type'', JString ''LogMessage'')]),
                    (''log'', JObject [(''payload'', JString (EncodeToString logMessage)),
                                      (''type'', JString ''OUT'')])]])])]),
         returnEmptyEnvelope)
      else if RawQuery = ''envelope_types=LOG&start_time='' @ nextEnvelopeTimestampPlusOneNanosecond then
        (Body (JObject []), returnEmptyEnvelope)
      else (Fail (''Unhandled log-cache api query string: '' @ RawQuery), returnEmptyEnvelope))"

section \<open>The log tail engine\<close>

text \<open>
  Modelled from the spec: the tail engine itself (the Cursor Fetcher, the Seek Stage,
  the Poll Loop and the Tail Coordinator, in the repository the streaming function
  of package \<open>sharedaction\<close> and the log-cache client it drives) is not among the
  sources; only its integration test with the mock log cache above is. The
  definitions of this section follow sections 3, 4.1 to 4.4 and 6 of the spec.
\<close>

subsection \<open>Queries and the store\<close>

text \<open>
  Modelled from the spec: the parameters of the store's read endpoint (section 6).
  The raw query string lists the parameters that are set in the alphabetical order
  of their names, which is the form the mock log cache of the test matches.
\<close>

record query =
  start_time :: time
  descending :: bool
  limit :: "int option"
  envelope_types :: "string option"

fun joinAmp :: "string list \<Rightarrow> string" where
  "joinAmp [] = []"
| "joinAmp [p] = p"
| "joinAmp (p # ps) = p @ ''&'' @ joinAmp ps"

definition RawQuery_of :: "query \<Rightarrow> string" where
  "RawQuery_of q =
     joinAmp
       ((if descending q then [''descending=true''] else [])
        @ (case envelope_types q of None \<Rightarrow> [] | Some t \<Rightarrow> [''envelope_types='' @ t])
        @ (case limit q of None \<Rightarrow> [] | Some n \<Rightarrow> [''limit='' @ FormatInt n])
        @ [''start_time='' @ FormatInt (start_time q)])"

text \<open>
  Modelled from the spec: the log store, as the engine sees it. It answers a raw
  query string with a JSON document or with a transport failure, and may change
  its state \<open>'s\<close> with every query.
\<close>

type_synonym 's store = "'s \<Rightarrow> string \<Rightarrow> (error + json) \<times> 's"

text \<open>The mock log cache of the test as a store: a failed test is a failure of
  the exchange.\<close>

definition mock_log_cache :: "bool store" where
  "mock_log_cache returnEmptyEnvelope RawQuery =
     (case handler returnEmptyEnvelope RawQuery of
        (Body doc, s) \<Rightarrow> (Inr doc, s)
      | (Fail msg, s) \<Rightarrow> (Inl (Error msg), s))"

text \<open>A store for examples that answers with the documents of a list, in order,
  whatever the query.\<close>

definition scripted :: "(error + json) list store" where
  "scripted rs RawQuery =
     (case rs of
        [] \<Rightarrow> (Inl (Error ''connection refused''), [])
      | r # rest \<Rightarrow> (r, rest))"

subsection \<open>Envelopes and the Cursor Fetcher\<close>

text \<open>
  Modelled from the spec (sections 3, 4.2 and 6): an envelope has a timestamp, a
  string-encoded integer of nanoseconds, and a source id; a log-typed envelope
  carries a nested object with a base64 payload and an output type, and the payload
  is decoded before it is placed in the envelope. The display metadata of the tags
  is left out. An empty object, or one with no batch, is the empty batch; a
  malformed document or payload is a failure of the query.
\<close>

record envelope =
  timestamp :: time
  sourceID :: string
  log :: "(string \<times> string) option"

definition stringMember :: "(string \<times> json) list \<Rightarrow> string \<Rightarrow> error + string" where
  "stringMember kvs name =
     (case map_of kvs name of
        None \<Rightarrow> Inr ''''
      | Some (JString s) \<Rightarrow> Inr s
      | Some _ \<Rightarrow> Inl (Error ''malformed envelope''))"

definition parseLog :: "json \<Rightarrow> error + string \<times> string" where
  "parseLog j =
     (case j of
        JObject kvs \<Rightarrow>
          (case stringMember kvs ''payload'' of
             Inl err \<Rightarrow> Inl err
           | Inr p \<Rightarrow>
               (case DecodeString p of
                  None \<Rightarrow> Inl (Error ''malformed payload'')
                | Some line \<Rightarrow>
                    (case stringMember kvs ''type'' of
                       Inl err \<Rightarrow> Inl err
                     | Inr outputType \<Rightarrow> Inr (line, outputType))))
      | _ \<Rightarrow> Inl (Error ''malformed envelope''))"

definition parseEnvelope :: "json \<Rightarrow> error + envelope" where
  "parseEnvelope j =
     (case j of
        JObject kvs \<Rightarrow>
          (case map_of kvs ''timestamp'' of
             Some (JString t) \<Rightarrow>
               (case ParseInt t of
                  None \<Rightarrow> Inl (Error ''malformed timestamp'')
                | Some ts \<Rightarrow>
                    (case stringMember kvs ''source_id'' of
                       Inl err \<Rightarrow> Inl err
                     | Inr sid \<Rightarrow>
                         (case map_of kvs ''log'' of
                            None \<Rightarrow> Inr \<lparr>timestamp = ts, sourceID = sid, log = None\<rparr>
                          | Some l \<Rightarrow>
                              (case parseLog l of
                                 Inl err \<Rightarrow> Inl err
                               | Inr pl \<Rightarrow> Inr \<lparr>timestamp = ts, sourceID = sid, log = Some pl\<rparr>))))
           | _ \<Rightarrow> Inl (Error ''malformed envelope''))
      | _ \<Rightarrow> Inl (Error ''malformed envelope''))"

fun parseBatch :: "json list \<Rightarrow> error + envelope list" where
  "parseBatch [] = Inr []"
| "parseBatch (j # js) =
     (case parseEnvelope j of
        Inl err \<Rightarrow> Inl err
      | Inr e \<Rightarrow>
          (case parseBatch js of
             Inl err \<Rightarrow> Inl err
           | Inr es \<Rightarrow> Inr (e # es)))"

definition parseResponse :: "json \<Rightarrow> error + envelope list" where
  "parseResponse doc =
     (case doc of
        JObject kvs \<Rightarrow>
          (case map_of kvs ''envelopes'' of
             None \<Rightarrow> Inr []
           | Some (JObject es) \<Rightarrow>
               (case map_of es ''batch'' of
                  None \<Rightarrow> Inr []
                | Some (JArray items) \<Rightarrow> parseBatch items
                | Some _ \<Rightarrow> Inl (Error ''malformed response''))
           | Some _ \<Rightarrow> Inl (Error ''malformed response''))
      | _ \<Rightarrow> Inl (Error ''malformed response''))"

text \<open>
  Modelled from the spec (section 4.2): the Cursor Fetcher executes one query
  against the store and parses the answer into a batch.
\<close>

definition fetch :: "'s store \<Rightarrow> 's \<Rightarrow> query \<Rightarrow> (error + envelope list) \<times> 's" where
  "fetch store s q =
     (case store s (RawQuery_of q) of
        (Inl err, s') \<Rightarrow> (Inl err, s')
      | (Inr doc, s') \<Rightarrow> (parseResponse doc, s'))"

subsection \<open>The Seek Stage and the Poll Loop\<close>

text \<open>
  What the engine does is recorded as a trace: the queries it issues, its waits,
  the envelopes it emits on the output channel and the error it pushes on the
  error channel. Both loops run until the caller cancels; the number of queries a
  loop may issue before that is its first argument after the store.
\<close>

datatype tail_event = Queried query | Waited | Emitted envelope | Failed error

text \<open>
  Modelled from the spec (section 4.1): the Seek Stage asks for at most one
  envelope, newest first, from the zero instant, which the test pins to
  \<open>time.Time{}.UnixNano()\<close>; on an empty answer it waits and asks again; a failure
  of the query is pushed to the error channel and ends the session (section 4.4).
  It returns the timestamp it found.
\<close>

definition seek_query :: query where
  "seek_query = \<lparr>start_time = zeroTimeUnixNano, descending = True, limit = Some 1,
                  envelope_types = None\<rparr>"

fun seek :: "'s store \<Rightarrow> nat \<Rightarrow> 's \<Rightarrow> tail_event list \<times> time option \<times> 's" where
  "seek store 0 s = ([], None, s)"
| "seek store (Suc n) s =
     (case fetch store s seek_query of
        (Inl err, s') \<Rightarrow> ([Queried seek_query, Failed err], None, s')
      | (Inr [], s') \<Rightarrow>
          (case seek store n s' of
             (tr, found, s'') \<Rightarrow> (Queried seek_query # Waited # tr, found, s''))
      | (Inr (e # es), s') \<Rightarrow> ([Queried seek_query], Some (timestamp e), s'))"

text \<open>
  Modelled from the spec (sections 3 and 4.3): the Cursor is the one piece of state
  of the Poll Loop, and every query of the loop starts one nanosecond after it.
  Envelopes are emitted in the order of the batch; one whose timestamp is not
  greater than the Cursor is dropped, and an emitted one becomes the Cursor, which
  is so the greatest timestamp seen. An empty batch leaves the Cursor alone and is
  followed by a wait; a failed query is pushed to the error channel and ends the
  loop (section 4.4).
\<close>

definition poll_query :: "time \<Rightarrow> query" where
  "poll_query start = \<lparr>start_time = start, descending = False, limit = None,
                        envelope_types = Some ''LOG''\<rparr>"

fun emit_batch :: "time \<Rightarrow> envelope list \<Rightarrow> tail_event list \<times> time" where
  "emit_batch cursor [] = ([], cursor)"
| "emit_batch cursor (e # es) =
     (if cursor < timestamp e then
        (case emit_batch (timestamp e) es of
           (tr, cursor') \<Rightarrow> (Emitted e # tr, cursor'))
      else emit_batch cursor es)"

fun poll_loop :: "'s store \<Rightarrow> nat \<Rightarrow> time \<Rightarrow> 's \<Rightarrow> tail_event list" where
  "poll_loop store 0 cursor s = []"
| "poll_loop store (Suc n) cursor s =
     (case fetch store s (poll_query (cursor + 1)) of
        (Inl err, s') \<Rightarrow> [Queried (poll_query (cursor + 1)), Failed err]
      | (Inr [], s') \<Rightarrow>
          Queried (poll_query (cursor + 1)) # Waited # poll_loop store n cursor s'
      | (Inr (e # es), s') \<Rightarrow>
          (case emit_batch cursor (e # es) of
             (tr, cursor') \<Rightarrow>
               Queried (poll_query (cursor + 1)) # tr @ poll_loop store n cursor' s'))"

text \<open>
  Modelled from the spec (sections 4.1 and 4.4): the Tail Coordinator runs the Seek
  Stage and then the Poll Loop. The first query of the loop starts at \<open>T - 1s\<close>, so
  the Cursor is initialised from \<open>T\<close> to one nanosecond before that: the window of
  one second before \<open>T\<close> is delivered again, as section 4.1 accepts.
\<close>

definition second :: duration where
  "second = 1000000000"

definition tail :: "'s store \<Rightarrow> nat \<Rightarrow> nat \<Rightarrow> 's \<Rightarrow> tail_event list" where
  "tail store m n s =
     (case seek store m s of
        (tr, None, s') \<Rightarrow> tr
      | (tr, Some T, s') \<Rightarrow> tr @ poll_loop store n (T - second - 1) s')"

text \<open>
  The Cursor as the trace shows it: the timestamp of the last envelope emitted.
  \<open>respects_cursor cursor tr\<close> holds when every query of \<open>tr\<close> starts after the
  Cursor at that point, and every envelope emitted is later than the Cursor at
  that point.
\<close>

fun respects_cursor :: "time \<Rightarrow> tail_event list \<Rightarrow> bool" where
  "respects_cursor cursor [] = True"
| "respects_cursor cursor (Queried q # tr) = (cursor < start_time q \<and> respects_cursor cursor tr)"
| "respects_cursor cursor (Emitted e # tr) =
     (cursor < timestamp e \<and> respects_cursor (timestamp e) tr)"
| "respects_cursor cursor (Waited # tr) = respects_cursor cursor tr"
| "respects_cursor cursor (Failed err # tr) = respects_cursor cursor tr"

fun emitted :: "tail_event list \<Rightarrow> envelope list" where
  "emitted [] = []"
| "emitted (Emitted e # tr) = e # emitted tr"
| "emitted (_ # tr) = emitted tr"

text \<open>A document for examples: a batch of envelopes with the given timestamps.\<close>

definition example_batch :: "int list \<Rightarrow> error + json" where
  "example_batch stamps =
     Inr (JObject [(''envelopes'', JObject [(''batch'',
       JArray (map (\<lambda>t. JObject [(''timestamp'', JString (FormatInt t))]) stamps))])])"

text \<open>
  Modelled from the spec (section 6): the response shape, seen from the store.
  \<open>encodes j e\<close> holds when the JSON value \<open>j\<close> is an envelope object for \<open>e\<close>: its
  timestamp as a decimal string, its source id and, for a log-typed envelope, the
  nested object with the payload in base64 and the output type. Other members,
  such as the tags, are free.
\<close>

definition encodes :: "json \<Rightarrow> envelope \<Rightarrow> bool" where
  "encodes j e =
     (case j of
        JObject kvs \<Rightarrow>
          map_of kvs ''timestamp'' = Some (JString (FormatInt (timestamp e))) \<and>
          stringMember kvs ''source_id'' = Inr (sourceID e) \<and>
          (case log e of
             None \<Rightarrow> map_of kvs ''log'' = None
           | Some (line, outputType) \<Rightarrow>
               (case map_of kvs ''log'' of
                  Some (JObject l) \<Rightarrow>
                    map_of l ''payload'' = Some (JString (EncodeToString line)) \<and>
                    stringMember l ''type'' = Inr outputType
                | _ \<Rightarrow> False))
      | _ \<Rightarrow> False)"

text \<open>
  \<open>follows_cursor cursor tr\<close> holds when every query of \<open>tr\<close> is the query for log
  envelopes that starts one nanosecond after the Cursor at that point, the Cursor
  being the timestamp of the last envelope emitted before the query.
\<close>

fun follows_cursor :: "time \<Rightarrow> tail_event list \<Rightarrow> bool" where
  "follows_cursor cursor [] = True"
| "follows_cursor cursor (Queried q # tr) =
     (q = \<lparr>start_time = cursor + 1, descending = False, limit = None,
           envelope_types = Some ''LOG''\<rparr> \<and> follows_cursor cursor tr)"
| "follows_cursor cursor (Emitted e # tr) = follows_cursor (timestamp e) tr"
| "follows_cursor cursor (Waited # tr) = follows_cursor cursor tr"
| "follows_cursor cursor (Failed err # tr) = follows_cursor cursor tr"

section \<open>Lemmas about the scheduler\<close>

lemma wrap64_id: "minInt64 \<le> x \<Longrightarrow> x \<le> maxInt64 \<Longrightarrow> wrap64 x = x"
  unfolding wrap64_def minInt64_def maxInt64_def by (simp add: mod_pos_pos_trivial)

lemma timeToRefresh_exact:
  assumes "0 \<le> E" "9 * E \<le> maxInt64"
  shows "timeToRefresh E = 9 * E div 10"
proof -
  have a: "mul64 E 9 = E * 9"
    unfolding mul64_def using assms by (intro wrap64_id) (auto simp: minInt64_def)
  have b: "0 \<le> E * 9 div 10" using assms by simp
  have "E * 9 div 10 \<le> E * 9" using assms(1) zdiv_mono2 [of "E * 9" 1 10] by simp
  then have c: "E * 9 div 10 \<le> maxInt64" using assms(2) by simp
  have "quot64 (E * 9) 10 = E * 9 div 10"
  proof (cases "E = 0")
    case True then show ?thesis by (simp add: quot64_def wrap64_def)
  next
    case False
    then have "sgn (E * 9) = 1" using assms by (simp add: sgn_if)
    then show ?thesis unfolding quot64_def using b c assms
      by (simp add: wrap64_id minInt64_def abs_if)
  qed
  then show ?thesis by (simp add: timeToRefresh_def a mult.commute)
qed

lemma refresh_loop_ticks:
  "\<forall>i<n. \<exists>tok. refresh (Suc (k + i)) = Inr tok \<Longrightarrow>
   refresh_loop refresh chan k (replicate n Tick) = (Blocked, map (\<lambda>i. chan (k + i)) [0..<n])"
proof (induction n arbitrary: k)
  case 0 then show ?case by simp
next
  case (Suc n)
  from Suc.prems have h0: "\<exists>tok. refresh (Suc k) = Inr tok" by (metis add.right_neutral zero_less_Suc)
  have "\<forall>i<n. \<exists>tok. refresh (Suc (Suc k + i)) = Inr tok"
    using Suc.prems by (metis Suc_less_eq add_Suc_right add_Suc)
  from Suc.IH[OF this] h0 show ?case
    by (auto simp: map_upt_Suc simp del: upt_Suc)
qed

lemma refresh_loop_failure:
  "\<forall>i<n. \<exists>tok. refresh (Suc (k + i)) = Inr tok \<Longrightarrow> refresh (Suc (k + n)) = Inl err \<Longrightarrow>
   refresh_loop refresh chan k (replicate n Tick @ Tick # rest) = (Panicked err, map (\<lambda>i. chan (k + i)) [0..<Suc n])"
proof (induction n arbitrary: k)
  case 0 then show ?case by simp
next
  case (Suc n)
  from Suc.prems have h0: "\<exists>tok. refresh (Suc k) = Inr tok" by (metis add.right_neutral zero_less_Suc)
  have a: "\<forall>i<n. \<exists>tok. refresh (Suc (Suc k + i)) = Inr tok"
    using Suc.prems by (metis Suc_less_eq add_Suc_right add_Suc)
  have b: "refresh (Suc (Suc k + n)) = Inl err" using Suc.prems by simp
  from Suc.IH[OF a b] h0 show ?case
    by (auto simp: map_upt_Suc[of _ "Suc n"] simp del: upt_Suc)
qed

section \<open>Lemmas about JSON strings\<close>

lemma jsonStringText_valid: "ValidString s \<Longrightarrow> jsonStringText s = s"
  by (induction s rule: jsonStringText.induct) (auto split: option.splits)

lemma equalFold_refl: "equalFold s s"
  by (simp add: equalFold_def)

section \<open>Lemmas about the tail engine\<close>

lemma respects_emit_batch:
  "emit_batch c es = (tr, c') \<Longrightarrow> respects_cursor c (tr @ rest) = respects_cursor c' rest"
proof (induction es arbitrary: c tr)
  case Nil
  then show ?case by simp
next
  case (Cons e es)
  show ?case
  proof (cases "c < timestamp e")
    case True
    obtain tr1 c1 where r: "emit_batch (timestamp e) es = (tr1, c1)"
      by (cases "emit_batch (timestamp e) es")
    with True Cons.prems have eq: "tr = Emitted e # tr1" "c1 = c'" by simp_all
    from r eq have "emit_batch (timestamp e) es = (tr1, c')" by simp
    from Cons.IH [OF this] True eq show ?thesis by simp
  next
    case False
    with Cons.prems have "emit_batch c es = (tr, c')" by simp
    from Cons.IH [OF this] show ?thesis .
  qed
qed

lemma poll_loop_respects_cursor: "respects_cursor c (poll_loop store n c s)"
proof (induction n arbitrary: c s)
  case 0
  then show ?case by simp
next
  case (Suc n)
  obtain r s' where f: "fetch store s (poll_query (c + 1)) = (r, s')"
    by (cases "fetch store s (poll_query (c + 1))")
  show ?case
  proof (cases r)
    case (Inl err)
    with f show ?thesis by (simp add: poll_query_def)
  next
    case (Inr batch)
    show ?thesis
    proof (cases batch)
      case Nil
      with f Inr Suc.IH [of c s'] show ?thesis by (simp add: poll_query_def)
    next
      case (Cons e es)
      obtain tr c' where eb: "emit_batch c (e # es) = (tr, c')"
        by (cases "emit_batch c (e # es)")
      have "respects_cursor c (tr @ poll_loop store n c' s')"
        using respects_emit_batch [OF eb] Suc.IH [of c' s'] by simp
      with f Inr Cons eb show ?thesis by (simp add: poll_query_def)
    qed
  qed
qed

lemma respects_cursor_emitted:
  "respects_cursor c tr \<Longrightarrow>
     sorted_wrt (<) (map timestamp (emitted tr)) \<and> (\<forall>e \<in> set (emitted tr). c < timestamp e)"
proof (induction c tr rule: respects_cursor.induct)
  case (3 cursor e tr)
  then show ?case by fastforce
qed simp_all

lemma poll_loop_head:
  "\<exists>rest. poll_loop store (Suc n) c s = Queried (poll_query (c + 1)) # rest"
  by (simp split: prod.splits sum.splits list.splits)

lemma seek_retries:
  "\<forall>i<N. fetch store (\<sigma> i) seek_query = (Inr [], \<sigma> (Suc i)) \<Longrightarrow>
   fetch store (\<sigma> N) seek_query = (Inr (e # es), s') \<Longrightarrow> N < m \<Longrightarrow>
   seek store m (\<sigma> 0) =
     (concat (replicate N [Queried seek_query, Waited]) @ [Queried seek_query], Some (timestamp e), s')"
proof (induction N arbitrary: m \<sigma>)
  case 0
  then obtain k where "m = Suc k" by (cases m) auto
  with 0 show ?case by simp
next
  case (Suc N)
  then obtain k where m: "m = Suc k" and k: "N < k" by (cases m) auto
  have a: "\<forall>i<N. fetch store (\<sigma> (Suc i)) seek_query = (Inr [], \<sigma> (Suc (Suc i)))"
    using Suc.prems(1) by simp
  have b: "fetch store (\<sigma> 0) seek_query = (Inr [], \<sigma> (Suc 0))"
    using Suc.prems(1) by simp
  from Suc.IH [of "\<lambda>i. \<sigma> (Suc i)" k, OF a Suc.prems(2) k] b m show ?case by simp
qed

section \<open>Lemmas about the codecs\<close>

lemma of_char_int_bounds: "0 \<le> (of_char c :: int) \<and> (of_char c :: int) < 256"
proof -
  have "(of_char c :: int) = int (of_char c)" by (simp add: of_nat_of_char)
  moreover have "(of_char c :: nat) < 256" by simp
  ultimately show ?thesis by linarith
qed

lemma indexOf_nth: "distinct xs \<Longrightarrow> k < length xs \<Longrightarrow> indexOf (xs ! k) xs = Some (int k)"
proof (induction xs arbitrary: k)
  case Nil
  then show ?case by simp
next
  case (Cons x xs)
  show ?case
  proof (cases k)
    case 0
    then show ?thesis by simp
  next
    case (Suc j)
    with Cons.prems have "xs ! j \<noteq> x" by auto
    with Suc Cons show ?thesis by simp
  qed
qed

lemma encodeStd_facts:
  "distinct encodeStd" "length encodeStd = 64"
  "CHR ''='' \<notin> set encodeStd" "CHR 0x0A \<notin> set encodeStd" "CHR 0x0D \<notin> set encodeStd"
  by (simp_all add: encodeStd_def)

lemma b64char_in: "b64char i \<in> set encodeStd"
  unfolding b64char_def by (rule nth_mem) (simp add: encodeStd_facts(2) nat_less_iff)

lemma b64value_b64char: "b64value (b64char i) = Some (i mod 64)"
proof -
  have "nat (i mod 64) < length encodeStd" by (simp add: encodeStd_facts(2) nat_less_iff)
  from indexOf_nth [OF encodeStd_facts(1) this] show ?thesis
    by (simp add: b64value_def b64char_def)
qed

lemma b64char_not_special:
  "b64char i \<noteq> CHR ''=''" "b64char i \<noteq> CHR 0x0A" "b64char i \<noteq> CHR 0x0D"
  using b64char_in [of i] encodeStd_facts(3-5) by auto

lemma sextets:
  fixes v :: int
  assumes "0 \<le> v" "v < 16777216"
  shows "(((v div 262144) mod 64 * 64 + (v div 4096) mod 64) * 64 + (v div 64) mod 64) * 64 + v mod 64 = v"
proof -
  have a1: "v div 4096 = v div 64 div 64"
    using zdiv_zmult2_eq [of 64 v 64] by simp
  have a2: "v div 262144 = v div 64 div 64 div 64"
    using zdiv_zmult2_eq [of 64 v 4096] a1 by simp
  have b: "v div 262144 < 64" using assms by simp
  have c: "0 \<le> v div 262144" using assms by simp
  from b c have d: "(v div 64 div 64 div 64) mod 64 = v div 64 div 64 div 64"
    unfolding a2 by simp
  show ?thesis unfolding a1 a2 d by (simp add: algebra_simps)
qed

lemma bytes3:
  fixes A B C :: int
  assumes "0 \<le> A" "A < 256" "0 \<le> B" "B < 256" "0 \<le> C" "C < 256"
  shows "(A * 65536 + B * 256 + C) div 65536 = A"
    and "(A * 65536 + B * 256 + C) div 256 mod 256 = B"
    and "(A * 65536 + B * 256 + C) mod 256 = C"
proof -
  show "(A * 65536 + B * 256 + C) div 65536 = A"
    using assms by (simp add: div_pos_pos_trivial)
  have e: "A * 65536 + B * 256 + C = (A * 256 + B) * 256 + C" by simp
  have "((A * 256 + B) * 256 + C) div 256 = A * 256 + B"
    using assms by (simp add: div_pos_pos_trivial)
  then show "(A * 65536 + B * 256 + C) div 256 mod 256 = B"
    unfolding e using assms by (simp add: mod_pos_pos_trivial)
  have "((A * 256 + B) * 256 + C) mod 256 = C mod 256"
    by (rule mod_mult_self3)
  also have "C mod 256 = C"
    using assms by (simp add: mod_pos_pos_trivial)
  finally have "((A * 256 + B) * 256 + C) mod 256 = C" .
  then show "(A * 65536 + B * 256 + C) mod 256 = C"
    unfolding e .
qed

lemma one_byte:
  fixes A :: int
  assumes "0 \<le> A" "A < 256"
  shows "(((A * 65536 div 262144) mod 64 * 64 + (A * 65536 div 4096) mod 64) div 16) mod 256 = A"
proof -
  define x where "x = A * 16"
  have a: "A * 65536 div 4096 = x" by (simp add: x_def)
  have b: "A * 65536 div 262144 = x div 64"
    using zdiv_zmult2_eq [of 64 "A * 65536" 4096] a by simp
  have "0 \<le> x div 64" "x div 64 < 64" using assms by (simp_all add: x_def)
  then have c: "(x div 64) mod 64 = x div 64" by simp
  have d: "x div 64 * 64 + x mod 64 = x" by (rule div_mult_mod_eq)
  have "x div 16 mod 256 = A" using assms by (simp add: x_def)
  then show ?thesis unfolding a b c d .
qed

lemma two_bytes:
  fixes A B :: int
  assumes "0 \<le> A" "A < 256" "0 \<le> B" "B < 256"
  defines "v \<equiv> A * 65536 + B * 256"
  defines "w \<equiv> ((v div 262144) mod 64 * 64 + (v div 4096) mod 64) * 64 + (v div 64) mod 64"
  shows "(w div 1024) mod 256 = A" and "(w div 4) mod 256 = B"
proof -
  have v: "0 \<le> v" "v < 16777216" using assms by (simp_all add: v_def)
  have a1: "v div 4096 = v div 64 div 64"
    using zdiv_zmult2_eq [of 64 v 64] by simp
  have a2: "v div 262144 = v div 64 div 64 div 64"
    using zdiv_zmult2_eq [of 64 v 4096] a1 by simp
  have "v div 262144 < 64" "0 \<le> v div 262144" using v by simp_all
  then have d: "(v div 64 div 64 div 64) mod 64 = v div 64 div 64 div 64"
    unfolding a2 by simp
  have w: "w = v div 64" unfolding w_def a1 a2 d by (simp add: algebra_simps)
  have v64: "v div 64 = A * 1024 + B * 4" unfolding v_def by simp
  have "(A * 1024 + B * 4) div 1024 = A" using assms by (simp add: div_pos_pos_trivial)
  then show "(w div 1024) mod 256 = A" unfolding w v64 using assms by (simp add: mod_pos_pos_trivial)
  have "(A * 1024 + B * 4) div 4 = A * 256 + B" by simp
  moreover have "(A * 256 + B) mod 256 = B mod 256" by (rule mod_mult_self3)
  ultimately show "(w div 4) mod 256 = B" unfolding w v64 using assms by (simp add: mod_pos_pos_trivial)
qed

lemma char_of_eqI: "x mod 256 = of_char c \<Longrightarrow> char_of (x::int) = c"
  by (simp add: char_of_eq_iff take_bit_eq_mod)

lemma decodeQuanta_pad2:
  "decodeQuanta [b64char i0, b64char i1, CHR ''='', CHR ''=''] =
     Some [char_of ((i0 mod 64 * 64 + i1 mod 64) div 16)]"
  by (simp add: b64value_b64char)

lemma decodeQuanta_pad1:
  "decodeQuanta [b64char i0, b64char i1, b64char i2, CHR ''=''] =
     Some [char_of (((i0 mod 64 * 64 + i1 mod 64) * 64 + i2 mod 64) div 1024),
           char_of (((i0 mod 64 * 64 + i1 mod 64) * 64 + i2 mod 64) div 4)]"
  by (simp add: b64value_b64char b64char_not_special Let_def)

lemma decodeQuanta_last:
  "decodeQuanta [b64char i0, b64char i1, b64char i2, b64char i3] =
     Some [char_of ((((i0 mod 64 * 64 + i1 mod 64) * 64 + i2 mod 64) * 64 + i3 mod 64) div 65536),
           char_of ((((i0 mod 64 * 64 + i1 mod 64) * 64 + i2 mod 64) * 64 + i3 mod 64) div 256),
           char_of (((i0 mod 64 * 64 + i1 mod 64) * 64 + i2 mod 64) * 64 + i3 mod 64)]"
  by (simp add: b64value_b64char b64char_not_special Let_def)

lemma decodeQuanta_more:
  "decodeQuanta (b64char i0 # b64char i1 # b64char i2 # b64char i3 # c # cs) =
     (case decodeQuanta (c # cs) of
        None \<Rightarrow> None
      | Some bytes \<Rightarrow>
          Some (char_of ((((i0 mod 64 * 64 + i1 mod 64) * 64 + i2 mod 64) * 64 + i3 mod 64) div 65536)
                # char_of ((((i0 mod 64 * 64 + i1 mod 64) * 64 + i2 mod 64) * 64 + i3 mod 64) div 256)
                # char_of (((i0 mod 64 * 64 + i1 mod 64) * 64 + i2 mod 64) * 64 + i3 mod 64)
                # bytes))"
  by (cases "decodeQuanta (c # cs)") (simp_all add: b64value_b64char Let_def)

lemma EncodeToString_quantum:
  "s \<noteq> [] \<Longrightarrow> \<exists>c cs. EncodeToString s = c # cs"
  by (induction s rule: EncodeToString.induct) (simp_all add: Let_def)

lemma decodeQuanta_EncodeToString: "decodeQuanta (EncodeToString s) = Some s"
proof (induction s rule: EncodeToString.induct)
  case 1
  then show ?case by simp
next
  case (2 a)
  define v :: int where "v = of_char a * 65536"
  have e: "EncodeToString [a] = [b64char (v div 262144), b64char (v div 4096), CHR ''='', CHR ''='']"
    unfolding v_def by (simp add: Let_def)
  have "((v div 262144) mod 64 * 64 + (v div 4096) mod 64) div 16 mod 256 = of_char a"
    unfolding v_def using of_char_int_bounds [of a] by (intro one_byte) simp_all
  then have "char_of (((v div 262144) mod 64 * 64 + (v div 4096) mod 64) div 16) = a"
    by (rule char_of_eqI)
  then show ?case by (simp only: e decodeQuanta_pad2)
next
  case (3 a b)
  define v :: int where "v = of_char a * 65536 + of_char b * 256"
  let ?w = "((v div 262144) mod 64 * 64 + (v div 4096) mod 64) * 64 + (v div 64) mod 64"
  have e: "EncodeToString [a, b] =
             [b64char (v div 262144), b64char (v div 4096), b64char (v div 64), CHR ''='']"
    unfolding v_def by (simp add: Let_def)
  have m: "(?w div 1024) mod 256 = of_char a" "(?w div 4) mod 256 = of_char b"
    unfolding v_def using of_char_int_bounds [of a] of_char_int_bounds [of b]
    by (intro two_bytes; simp)+
  have "char_of (?w div 1024) = a" by (rule char_of_eqI) (rule m(1))
  moreover have "char_of (?w div 4) = b" by (rule char_of_eqI) (rule m(2))
  ultimately have "char_of (?w div 1024) = a" "char_of (?w div 4) = b" by blast+
  then show ?case by (simp only: e decodeQuanta_pad1)
next
  case (4 a b c rest)
  define v :: int where "v = of_char a * 65536 + of_char b * 256 + of_char c"
  let ?w = "(((v div 262144) mod 64 * 64 + (v div 4096) mod 64) * 64 + (v div 64) mod 64) * 64 + v mod 64"
  have e: "EncodeToString (a # b # c # rest) =
             b64char (v div 262144) # b64char (v div 4096) # b64char (v div 64) # b64char v
             # EncodeToString rest"
    unfolding v_def by (simp add: Let_def)
  have bounds: "0 \<le> v" "v < 16777216"
    unfolding v_def
    using of_char_int_bounds [of a] of_char_int_bounds [of b] of_char_int_bounds [of c] by simp_all
  have w: "?w = v" by (rule sextets [OF bounds])
  have m: "(v div 65536) mod 256 = of_char a" "v div 256 mod 256 = of_char b" "v mod 256 = of_char c"
    unfolding v_def
    using bytes3 [of "of_char a" "of_char b" "of_char c"]
      of_char_int_bounds [of a] of_char_int_bounds [of b] of_char_int_bounds [of c]
    by (simp_all add: mod_pos_pos_trivial)
  have bytes: "char_of (v div 65536) = a" "char_of (v div 256) = b" "char_of v = c"
    by (rule char_of_eqI, rule m(1), rule char_of_eqI, rule m(2), rule char_of_eqI, rule m(3))
  show ?case
  proof (cases "rest = []")
    case True
    then have "EncodeToString rest = []" by simp
    then show ?thesis unfolding True
      by (simp only: e [unfolded True] decodeQuanta_last w bytes)
  next
    case False
    then obtain x xs where q: "EncodeToString rest = x # xs"
      using EncodeToString_quantum by blast
    have "decodeQuanta (x # xs) = Some rest"
      using "4.IH" q by simp
    then show ?thesis
      by (simp only: e q decodeQuanta_more w bytes) simp
  qed
qed

lemma EncodeToString_chars: "set (EncodeToString s) \<subseteq> insert (CHR ''='') (set encodeStd)"
  by (induction s rule: EncodeToString.induct) (simp_all add: Let_def b64char_in)

lemma DecodeString_EncodeToString: "DecodeString (EncodeToString s) = Some s"
proof -
  have "filter (\<lambda>c. c \<noteq> CHR 0x0A \<and> c \<noteq> CHR 0x0D) (EncodeToString s) = EncodeToString s"
    using EncodeToString_chars [of s] encodeStd_facts(4,5) by (auto simp: filter_id_conv)
  then show ?thesis by (simp add: DecodeString_def decodeQuanta_EncodeToString)
qed

lemma digitChar_value: "0 \<le> d \<Longrightarrow> d < 10 \<Longrightarrow> (of_char (digitChar d) :: int) = 48 + d"
  by (simp add: digitChar_def mod_pos_pos_trivial)

lemma isDigit_digitChar: "0 \<le> d \<Longrightarrow> d < 10 \<Longrightarrow> isDigit (digitChar d)"
  by (simp add: isDigit_def digitChar_value)

lemma formatNat_digits:
  "0 \<le> n \<Longrightarrow>
     formatNat n \<noteq> [] \<and> list_all isDigit (formatNat n) \<and>
     foldl (\<lambda>acc c. 10 * acc + (of_char c - 48)) 0 (formatNat n) = n"
proof (induction n rule: formatNat.induct)
  case (1 n)
  show ?case
  proof (cases "n < 10")
    case True
    with "1.prems" have "formatNat n = [digitChar n]" by (subst formatNat.simps) simp
    with True "1.prems" show ?thesis by (simp add: isDigit_digitChar digitChar_value)
  next
    case False
    then have e: "formatNat n = formatNat (n div 10) @ [digitChar (n mod 10)]"
      by (subst formatNat.simps) simp
    have ih: "formatNat (n div 10) \<noteq> [] \<and> list_all isDigit (formatNat (n div 10)) \<and>
              foldl (\<lambda>acc c. 10 * acc + (of_char c - 48)) 0 (formatNat (n div 10)) = n div 10"
      using "1.IH" False "1.prems" by simp
    have d: "(of_char (digitChar (n mod 10)) :: int) = 48 + n mod 10"
      by (rule digitChar_value) simp_all
    have "isDigit (digitChar (n mod 10))" by (rule isDigit_digitChar) simp_all
    with ih d show ?thesis unfolding e by simp
  qed
qed

lemma parseDigits_formatNat: "0 \<le> n \<Longrightarrow> parseDigits (formatNat n) = Some n"
  using formatNat_digits [of n] by (simp add: parseDigits_def)

lemma formatNat_head:
  "0 \<le> n \<Longrightarrow> \<exists>c cs. formatNat n = c # cs \<and> c \<noteq> CHR ''-'' \<and> c \<noteq> CHR ''+''"
proof -
  assume "0 \<le> n"
  from formatNat_digits [OF this] obtain c cs where
    e: "formatNat n = c # cs" and "isDigit c"
    by (cases "formatNat n") auto
  then have "c \<noteq> CHR ''-'' \<and> c \<noteq> CHR ''+''" by (auto simp: isDigit_def)
  with e show ?thesis by blast
qed

lemma ParseInt_FormatInt:
  assumes "minInt64 \<le> i" "i \<le> maxInt64"
  shows "ParseInt (FormatInt i) = Some i"
proof (cases "i < 0")
  case True
  then have "parseDigits (formatNat (- i)) = Some (- i)" by (intro parseDigits_formatNat) simp
  with True assms show ?thesis by (simp add: ParseInt_def FormatInt_def)
next
  case False
  then have p: "parseDigits (formatNat i) = Some i" by (intro parseDigits_formatNat) simp
  from False obtain c cs where e: "formatNat i = c # cs" "c \<noteq> CHR ''-''" "c \<noteq> CHR ''+''"
    using formatNat_head [of i] by auto
  from p e False assms show ?thesis by (simp add: ParseInt_def FormatInt_def)
qed

section \<open>Lemmas about the Cursor Fetcher and the Cursor\<close>

lemma parseEnvelope_encodes:
  assumes "encodes j e" and "minInt64 \<le> timestamp e" and "timestamp e \<le> maxInt64"
  shows "parseEnvelope j = Inr e"
proof -
  from assms(1) obtain kvs where j: "j = JObject kvs"
    by (cases j) (simp_all add: encodes_def)
  from assms(1) have ts: "map_of kvs ''timestamp'' = Some (JString (FormatInt (timestamp e)))"
    and sid: "stringMember kvs ''source_id'' = Inr (sourceID e)"
    by (simp_all add: encodes_def j)
  have p: "ParseInt (FormatInt (timestamp e)) = Some (timestamp e)"
    by (rule ParseInt_FormatInt [OF assms(2,3)])
  show ?thesis
  proof (cases "log e")
    case None
    with assms(1) have "map_of kvs ''log'' = None" by (simp add: encodes_def j)
    with ts sid p None show ?thesis by (simp add: parseEnvelope_def j)
  next
    case (Some pl)
    obtain line outputType where pl: "pl = (line, outputType)" by (cases pl)
    from assms(1) Some pl obtain l where l: "map_of kvs ''log'' = Some (JObject l)"
      and pay: "map_of l ''payload'' = Some (JString (EncodeToString line))"
      and ty: "stringMember l ''type'' = Inr outputType"
      by (auto simp: encodes_def j split: option.splits json.splits)
    have "parseLog (JObject l) = Inr (line, outputType)"
      using pay ty by (simp add: parseLog_def stringMember_def DecodeString_EncodeToString)
    with ts sid p l Some pl show ?thesis by (simp add: parseEnvelope_def j)
  qed
qed

lemma parseBatch_encodes:
  "list_all2 encodes items es \<Longrightarrow>
   \<forall>e \<in> set es. minInt64 \<le> timestamp e \<and> timestamp e \<le> maxInt64 \<Longrightarrow>
   parseBatch items = Inr es"
proof (induction items es rule: list_all2_induct)
  case Nil
  then show ?case by simp
next
  case (Cons j js e es)
  then show ?case by (simp add: parseEnvelope_encodes)
qed

lemma follows_emit_batch:
  "emit_batch c es = (tr, c') \<Longrightarrow> follows_cursor c (tr @ rest) = follows_cursor c' rest"
proof (induction es arbitrary: c tr)
  case Nil
  then show ?case by simp
next
  case (Cons e es)
  show ?case
  proof (cases "c < timestamp e")
    case True
    obtain tr1 c1 where r: "emit_batch (timestamp e) es = (tr1, c1)"
      by (cases "emit_batch (timestamp e) es")
    with True Cons.prems have eq: "tr = Emitted e # tr1" "c1 = c'" by simp_all
    from r eq have "emit_batch (timestamp e) es = (tr1, c')" by simp
    from Cons.IH [OF this] True eq show ?thesis by simp
  next
    case False
    with Cons.prems have "emit_batch c es = (tr, c')" by simp
    from Cons.IH [OF this] show ?thesis .
  qed
qed

lemma poll_loop_follows_cursor: "follows_cursor c (poll_loop store n c s)"
proof (induction n arbitrary: c s)
  case 0
  then show ?case by simp
next
  case (Suc n)
  obtain r s' where f: "fetch store s (poll_query (c + 1)) = (r, s')"
    by (cases "fetch store s (poll_query (c + 1))")
  show ?case
  proof (cases r)
    case (Inl err)
    with f show ?thesis by (simp add: poll_query_def)
  next
    case (Inr batch)
    show ?thesis
    proof (cases batch)
      case Nil
      with f Inr Suc.IH [of c s'] show ?thesis by (simp add: poll_query_def)
    next
      case (Cons e es)
      obtain tr c' where eb: "emit_batch c (e # es) = (tr, c')"
        by (cases "emit_batch c (e # es)")
      have "follows_cursor c (tr @ poll_loop store n c' s')"
        using follows_emit_batch [OF eb] Suc.IH [of c' s'] by simp
      with f Inr Cons eb show ?thesis by (simp add: poll_query_def)
    qed
  qed
qed

lemma emit_batch_sorted:
  "sorted_wrt (<) (c # map timestamp es) \<Longrightarrow>
   emit_batch c es = (map Emitted es, last (c # map timestamp es))"
  by (induction es arbitrary: c) auto

section \<open>Properties of the token refresh scheduler\<close>

text \<open>
  C8: when the expiry cannot be read from the refreshed access token,
  \<open>ScheduleTokenRefresh\<close> returns the error "Failed to get an expiry time from the
  current access token" after its single call of \<open>RefreshAccessToken\<close> (nothing is
  retried), and no goroutine is started: whatever ticks arrive later, the whole call
  is that error.
\<close>

theorem ScheduleTokenRefresh_no_expiry:
  assumes "RefreshAccessToken env 0 = Inr s"
    and "ParseJWT env (TrimPrefix s ''bearer '') = Inr token"
    and "Expiration token = None"
  shows "ScheduleTokenRefresh env =
           (Inl (Error ''Failed to get an expiry time from the current access token''), 1) \<and>
         TokenRefreshScheduler env tickerChan t1 evs =
           Inl (Error ''Failed to get an expiry time from the current access token'')"
  using assms by (simp add: ScheduleTokenRefresh_def TokenRefreshScheduler_def)

theorem ScheduleTokenRefresh_no_expiry_witness:
  "ScheduleTokenRefresh (example_env [Inr ''bearer A'', Inr ''bearer A''] [(''A'', None)] 0) =
     (Inl (Error ''Failed to get an expiry time from the current access token''), 1) \<and>
   TokenRefreshScheduler (example_env [Inr ''bearer A'', Inr ''bearer A''] [(''A'', None)] 0)
     None 0 [Tick, Tick] =
     Inl (Error ''Failed to get an expiry time from the current access token'')"
  using ScheduleTokenRefresh_no_expiry
    [of "example_env [Inr ''bearer A'', Inr ''bearer A''] [(''A'', None)] 0"
        "''bearer A''" "\<lparr>Expiration = None\<rparr>" None 0 "[Tick, Tick]"]
  by (simp add: example_env_def TrimPrefix_def)

text \<open>
  C4, as amended: for a token whose expiry is \<open>E\<close> nanoseconds after the clock
  reading, with \<open>0 \<le> E\<close> and \<open>9 * E\<close> within \<open>int64\<close>, the delay computed by
  \<open>expiresIn * 9 / 10\<close> is \<open>9 * E div 10\<close>, that is 90% of \<open>E\<close> rounded down to
  a whole nanosecond; and when no tick source was supplied and \<open>E\<close> is at least 2ns,
  the first refresh of the loop happens one such delay after the ticker was created
  at \<open>t0\<close>.
\<close>

theorem timeToRefresh_ninety_percent:
  assumes "RefreshAccessToken env 0 = Inr s"
    and "ParseJWT env (TrimPrefix s ''bearer '') = Inr token"
    and "Expiration token = Some expiration"
    and "E = expiration - Now env"
    and "0 \<le> E" and "9 * E \<le> maxInt64"
  shows "ScheduleTokenRefresh env = (Inr (9 * E div 10), 1) \<and>
         (2 \<le> E \<longrightarrow>
            (\<exists>out ts. TokenRefreshScheduler env None t0 (Tick # evs)
                        = Inr (out, (t0 + 9 * E div 10) # ts)))"
proof -
  have range: "E \<le> maxInt64" "minInt64 \<le> E"
    using assms(5,6) by (simp_all add: minInt64_def)
  have until: "Until (Now env) expiration = E"
    using range assms(4) by (simp add: Until_def Sub_def)
  have head: "ScheduleTokenRefresh env = (Inr (9 * E div 10), 1)"
    using assms(1-3) until timeToRefresh_exact [OF assms(5,6)]
    by (simp add: ScheduleTokenRefresh_def)
  have "\<exists>out ts. TokenRefreshScheduler env None t0 (Tick # evs)
                   = Inr (out, (t0 + 9 * E div 10) # ts)" if "2 \<le> E"
  proof -
    from that have pos: "0 < 9 * E div 10" by simp
    show ?thesis
      using pos head
      by (cases "RefreshAccessToken env (Suc 0)";
          cases "refresh_loop (RefreshAccessToken env) (\<lambda>k. t0 + (int k + 1) * (9 * E div 10)) (Suc 0) evs")
         (simp_all add: TokenRefreshScheduler_def goroutine_def NewTicker_def)
  qed
  with head show ?thesis by blast
qed

theorem timeToRefresh_ninety_percent_witness:
  "ScheduleTokenRefresh (example_env [Inr ''bearer A'', Inr ''bearer B''] [(''A'', Some 1005)] 5)
     = (Inr 900, 1) \<and>
   (\<exists>out ts. TokenRefreshScheduler (example_env [Inr ''bearer A'', Inr ''bearer B''] [(''A'', Some 1005)] 5)
                None 7 [Tick] = Inr (out, 907 # ts))"
  using timeToRefresh_ninety_percent
    [of "example_env [Inr ''bearer A'', Inr ''bearer B''] [(''A'', Some 1005)] 5"
        "''bearer A''" "\<lparr>Expiration = Some 1005\<rparr>" 1005 1000 7 "[]"]
  by (simp add: example_env_def TrimPrefix_def maxInt64_def)

text \<open>
  The claim as stated fails in three ways. For a token that expires \<open>2 ^ 60\<close>ns
  (about 36.5 years) ahead, \<open>expiresIn * 9\<close> wraps around: the delay is negative
  instead of \<open>1037629354146162278\<close>, and \<open>time.NewTicker\<close> panics before any
  refresh. For a token that expires 1ns ahead the delay is 0, and \<open>time.NewTicker\<close>
  panics as well. And with a tick source supplied by the caller the first refresh
  happens at its first tick, here at 5, whatever the delay computed, here 900.
\<close>

theorem timeToRefresh_overflow_counterexample:
  "ScheduleTokenRefresh (example_env [Inr ''bearer A'', Inr ''bearer B''] [(''A'', Some (2 ^ 60))] 0)
     = (Inr (- 807045053224792883), 1) \<and>
   9 * 2 ^ 60 div 10 = (1037629354146162278 :: int) \<and>
   TokenRefreshScheduler (example_env [Inr ''bearer A'', Inr ''bearer B''] [(''A'', Some (2 ^ 60))] 0)
     None 0 [Tick] = Inr (Panicked (Error ''non-positive interval for NewTicker''), []) \<and>
   TokenRefreshScheduler (example_env [Inr ''bearer A'', Inr ''bearer B''] [(''A'', Some 1)] 0)
     None 0 [Tick] = Inr (Panicked (Error ''non-positive interval for NewTicker''), []) \<and>
   ScheduleTokenRefresh (example_env [Inr ''bearer A'', Inr ''bearer B''] [(''A'', Some 1000)] 0)
     = (Inr 900, 1) \<and>
   TokenRefreshScheduler (example_env [Inr ''bearer A'', Inr ''bearer B''] [(''A'', Some 1000)] 0)
     (Some example_ticks) 0 [Tick] = Inr (Blocked, [5])"
  by (simp add: TokenRefreshScheduler_def ScheduleTokenRefresh_def example_env_def TrimPrefix_def
      Until_def Sub_def maxInt64_def minInt64_def timeToRefresh_def mul64_def quot64_def wrap64_def
      goroutine_def NewTicker_def example_ticks_def)

text \<open>
  C2, as amended: on every tick the loop calls \<open>RefreshAccessToken\<close> once, and the
  instants of these refreshes are those of the one ticker created with the delay
  \<open>d\<close> of the initial token, \<open>t1 + d\<close>, \<open>t1 + 2 * d\<close>, ... (or those of the tick
  source supplied by the caller), whatever tokens the refreshes return: the delay
  is never recomputed.
\<close>

theorem refresh_period_fixed:
  assumes "ScheduleTokenRefresh env = (Inr d, c)"
    and "tickerChan = None \<longrightarrow> 0 < d"
    and "\<forall>i<n. \<exists>tok. RefreshAccessToken env (Suc i) = Inr tok"
  shows "TokenRefreshScheduler env tickerChan t1 (replicate n Tick) =
           Inr (Blocked, map (case tickerChan of None \<Rightarrow> (\<lambda>i. t1 + (int i + 1) * d) | Some chan \<Rightarrow> chan) [0..<n])"
  using assms(1,2) refresh_loop_ticks [of n "RefreshAccessToken env" 0] assms(3)
  by (cases tickerChan) (simp_all add: TokenRefreshScheduler_def goroutine_def NewTicker_def)

theorem refresh_period_fixed_witness:
  "TokenRefreshScheduler
     (example_env [Inr ''bearer A'', Inr ''bearer B'', Inr ''bearer B'', Inr ''bearer B'']
        [(''A'', Some 1000), (''B'', Some 100900)] 0)
     None 0 (replicate 3 Tick) = Inr (Blocked, [900, 1800, 2700])"
  using refresh_period_fixed
    [of "example_env [Inr ''bearer A'', Inr ''bearer B'', Inr ''bearer B'', Inr ''bearer B'']
        [(''A'', Some 1000), (''B'', Some 100900)] 0" 900 1 None 3 0]
  by (simp add: ScheduleTokenRefresh_def example_env_def TrimPrefix_def
      Until_def Sub_def maxInt64_def minInt64_def timeToRefresh_def mul64_def quot64_def wrap64_def
      less_Suc_eq numeral_3_eq_3 upt_rec)

text \<open>
  The claim as stated fails: the initial token gives the delay 900; the refresh at
  900 returns a token that expires 100000 later, for which the rescheduled delay
  would be 90000, and the next refresh is at 1800 all the same.
\<close>

theorem reschedule_counterexample:
  "TokenRefreshScheduler
     (example_env [Inr ''bearer A'', Inr ''bearer B'', Inr ''bearer B'']
        [(''A'', Some 1000), (''B'', Some 100900)] 0)
     None 0 [Tick, Tick] = Inr (Blocked, [900, 1800]) \<and>
   RefreshAccessToken
     (example_env [Inr ''bearer A'', Inr ''bearer B'', Inr ''bearer B'']
        [(''A'', Some 1000), (''B'', Some 100900)] 0) 1 = Inr ''bearer B'' \<and>
   rescheduled_delay
     (example_env [Inr ''bearer A'', Inr ''bearer B'', Inr ''bearer B'']
        [(''A'', Some 1000), (''B'', Some 100900)] 0) ''bearer B'' 900 = Some 90000"
  by (simp add: TokenRefreshScheduler_def ScheduleTokenRefresh_def example_env_def TrimPrefix_def
      Until_def Sub_def maxInt64_def minInt64_def timeToRefresh_def mul64_def quot64_def wrap64_def
      goroutine_def NewTicker_def rescheduled_delay_def)

text \<open>
  C3, as amended: when a refresh inside the loop fails, the goroutine panics with
  that error. The failure is not swallowed and the loop stops, but the panic is
  not recovered, so it ends the whole process.
\<close>

theorem refresh_failure_panics:
  assumes "ScheduleTokenRefresh env = (Inr d, c)"
    and "tickerChan = None \<longrightarrow> 0 < d"
    and "\<forall>i<n. \<exists>tok. RefreshAccessToken env (Suc i) = Inr tok"
    and "RefreshAccessToken env (Suc n) = Inl err"
  shows "\<exists>out ts. TokenRefreshScheduler env tickerChan t1 (replicate n Tick @ Tick # rest)
                    = Inr (out, ts) \<and> out = Panicked err \<and> process_terminated out"
  using assms(1,2) refresh_loop_failure [of n "RefreshAccessToken env" 0 err] assms(3,4)
  by (cases tickerChan)
    (simp_all add: TokenRefreshScheduler_def goroutine_def NewTicker_def process_terminated_def)

theorem refresh_failure_panics_witness:
  "\<exists>out ts. TokenRefreshScheduler
      (example_env [Inr ''bearer A'', Inr ''bearer B'', Inl (Error ''revoked'')] [(''A'', Some 1000)] 0)
      None 0 [Tick, Tick, QuitNow] = Inr (out, ts) \<and>
      out = Panicked (Error ''revoked'') \<and> process_terminated out"
  using refresh_failure_panics
    [of "example_env [Inr ''bearer A'', Inr ''bearer B'', Inl (Error ''revoked'')] [(''A'', Some 1000)] 0"
        900 1 None 1 "Error ''revoked''" 0 "[QuitNow]"]
  by (simp add: ScheduleTokenRefresh_def example_env_def TrimPrefix_def
      Until_def Sub_def maxInt64_def minInt64_def timeToRefresh_def mul64_def quot64_def wrap64_def)

text \<open>
  The claim as stated fails: a revoked credential at the first tick ends the
  process.
\<close>

theorem refresh_failure_counterexample:
  "TokenRefreshScheduler
     (example_env [Inr ''bearer A'', Inl (Error ''revoked'')] [(''A'', Some 1000)] 0)
     None 0 [Tick] = Inr (Panicked (Error ''revoked''), [900]) \<and>
   process_terminated (Panicked (Error ''revoked''))"
  by (simp add: TokenRefreshScheduler_def ScheduleTokenRefresh_def example_env_def TrimPrefix_def
      Until_def Sub_def maxInt64_def minInt64_def timeToRefresh_def mul64_def quot64_def wrap64_def
      goroutine_def NewTicker_def process_terminated_def)

section \<open>Properties of the requester\<close>

text \<open>
  C10, as amended: for every call of \<open>MakeRequest\<close> whose request body marshals (or
  is nil) and whose HTTP request is built, \<open>Connection.Make\<close> is executed twice on
  the same request, once directly and once inside \<open>GetSingleResponse\<close>, each time
  with a fresh response struct; the job URL, the warnings and the error returned
  are those of the second exchange, and the error and the response of the first
  are dropped.
\<close>

theorem MakeRequest_two_exchanges:
  assumes "(RequestBody params = None \<and> body = None) \<or>
           (\<exists>b s. RequestBody params = Some b \<and> Marshal client b = Inr s \<and> body = Some s)"
    and "NewHTTPRequest client
           \<lparr>optRequestName = RequestName params, optURIParams = URIParams params,
            optQuery = Query params, optBody = body\<rparr> = Inr request"
    and "ConnectionMake client w request (newResponse params) = (err1, response1, w1)"
    and "ConnectionMake client w1 request (newResponse params) = (err2, response2, w2)"
  shows "MakeRequest client params w =
           ((ResourceLocationURL response2, ResponseWarnings response2, err2), w2)"
  using assms by (auto simp: MakeRequest_def GetSingleResponse_def)

theorem MakeRequest_two_exchanges_witness:
  "MakeRequest example_client
     \<lparr>RequestName = ''DeleteApplication'', URIParams = [(''app_guid'', ''g'')], Query = [],
      RequestBody = None, ResponseBody = None\<rparr> 0
   = ((''job 2'', [''warning 2''], None), 2)"
  using MakeRequest_two_exchanges
    [of "\<lparr>RequestName = ''DeleteApplication'', URIParams = [(''app_guid'', ''g'')], Query = [],
          RequestBody = None, ResponseBody = None\<rparr>"
        None example_client "''DeleteApplication''" 0
        "Some (Error ''first exchange failed'')"
        "\<lparr>DecodeJSONResponseInto = None, ResponseWarnings = [''warning 1''], ResourceLocationURL = ''job 1''\<rparr>"
        1 None
        "\<lparr>DecodeJSONResponseInto = None, ResponseWarnings = [''warning 2''], ResourceLocationURL = ''job 2''\<rparr>"
        2]
  by (simp add: example_client_def newResponse_def)

text \<open>
  The claim as stated fails for a call whose request cannot be built: the error of
  \<open>NewHTTPRequest\<close> is returned and no exchange is made.
\<close>

theorem MakeRequest_no_exchange_counterexample:
  "MakeRequest example_client
     \<lparr>RequestName = '''', URIParams = [], Query = [],
      RequestBody = None, ResponseBody = None\<rparr> 0
   = (('''', [], Some (Error ''no such request'')), 0)"
  by (simp add: MakeRequest_def example_client_def)

section \<open>Properties of \<open>Relationship\<close>\<close>

text \<open>
  C9, as amended: marshaling never fails, and unmarshaling the document produced by
  marshaling \<open>r\<close> yields the GUID of \<open>r\<close> coerced to valid UTF-8, whatever the
  receiver held before; so it yields \<open>r\<close> again whenever the GUID of \<open>r\<close> is valid
  UTF-8. A \<open>Relationship\<close> with an empty GUID marshals to the object whose
  \<open>data\<close> member is \<open>null\<close>, and unmarshaling that object yields the empty GUID.
\<close>

theorem Relationship_roundtrip:
  "(\<exists>j. MarshalJSON r = Inr j \<and> UnmarshalJSON r0 j = Inr \<lparr>GUID = jsonStringText (GUID r)\<rparr> \<and>
        (ValidString (GUID r) \<longrightarrow> UnmarshalJSON r0 j = Inr r)) \<and>
   (GUID r = '''' \<longrightarrow>
      MarshalJSON r = Inr (JObject [(''data'', JNull)]) \<and>
      UnmarshalJSON r0 (JObject [(''data'', JNull)]) = Inr \<lparr>GUID = ''''\<rparr>)"
  by (auto simp: MarshalJSON_def UnmarshalJSON_def equalFold_refl jsonStringText_valid)

theorem Relationship_roundtrip_witness:
  "(MarshalJSON \<lparr>GUID = ''iso-seg-guid''\<rparr> =
      Inr (JObject [(''data'', JObject [(''guid'', JString ''iso-seg-guid'')])]) \<and>
    UnmarshalJSON \<lparr>GUID = ''old''\<rparr>
      (JObject [(''data'', JObject [(''guid'', JString ''iso-seg-guid'')])]) =
      Inr \<lparr>GUID = ''iso-seg-guid''\<rparr>) \<and>
   (MarshalJSON \<lparr>GUID = ''''\<rparr> = Inr (JObject [(''data'', JNull)]) \<and>
    UnmarshalJSON \<lparr>GUID = ''old''\<rparr> (JObject [(''data'', JNull)]) = Inr \<lparr>GUID = ''''\<rparr>)"
  using Relationship_roundtrip [of "\<lparr>GUID = ''iso-seg-guid''\<rparr>" "\<lparr>GUID = ''old''\<rparr>"]
    Relationship_roundtrip [of "\<lparr>GUID = ''''\<rparr>" "\<lparr>GUID = ''old''\<rparr>"]
  by (simp add: MarshalJSON_def between_def)

text \<open>
  The claim as stated fails for a GUID that is not valid UTF-8: the byte FF is
  marshaled as U+FFFD, and unmarshaling yields the three bytes EF BF BD.
\<close>

theorem Relationship_roundtrip_counterexample:
  "MarshalJSON \<lparr>GUID = [CHR 0xFF]\<rparr> =
     Inr (JObject [(''data'', JObject [(''guid'', JString [CHR 0xEF, CHR 0xBF, CHR 0xBD])])]) \<and>
   UnmarshalJSON \<lparr>GUID = [CHR 0xFF]\<rparr>
     (JObject [(''data'', JObject [(''guid'', JString [CHR 0xEF, CHR 0xBF, CHR 0xBD])])]) =
     Inr \<lparr>GUID = [CHR 0xEF, CHR 0xBF, CHR 0xBD]\<rparr>"
  by (simp add: MarshalJSON_def UnmarshalJSON_def equalFold_def)

section \<open>Properties of the log tail engine\<close>

text \<open>
  C1: in every run of the Poll Loop, against any store and from any Cursor, every
  query starts after the Cursor at that point, the timestamp of the last envelope
  emitted, and every envelope emitted is later than the Cursor at that point; so
  the timestamps emitted increase strictly, and no envelope is delivered twice.
\<close>

theorem poll_loop_no_duplicates:
  "respects_cursor cursor (poll_loop store n cursor s) \<and>
   sorted_wrt (<) (map timestamp (emitted (poll_loop store n cursor s))) \<and>
   distinct (map timestamp (emitted (poll_loop store n cursor s)))"
proof -
  have r: "respects_cursor cursor (poll_loop store n cursor s)"
    by (rule poll_loop_respects_cursor)
  then have s: "sorted_wrt (<) (map timestamp (emitted (poll_loop store n cursor s)))"
    using respects_cursor_emitted by blast
  then have "distinct (map timestamp (emitted (poll_loop store n cursor s)))"
    by (simp add: strict_sorted_iff)
  with r s show ?thesis by simp
qed

theorem poll_loop_no_duplicates_witness:
  "map timestamp (emitted (poll_loop scripted 4 4
      [example_batch [5, 5, 3, 7], example_batch [], example_batch [7, 8]])) = [5, 7, 8] \<and>
   respects_cursor 4 (poll_loop scripted 4 4
      [example_batch [5, 5, 3, 7], example_batch [], example_batch [7, 8]]) \<and>
   distinct (map timestamp (emitted (poll_loop scripted 4 4
      [example_batch [5, 5, 3, 7], example_batch [], example_batch [7, 8]])))"
proof -
  have "map timestamp (emitted (poll_loop scripted 4 4
      [example_batch [5, 5, 3, 7], example_batch [], example_batch [7, 8]])) = [5, 7, 8]"
    by code_simp
  with poll_loop_no_duplicates [of 4 scripted 4
      "[example_batch [5, 5, 3, 7], example_batch [], example_batch [7, 8]]"]
  show ?thesis by simp
qed

text \<open>
  C5: when the Seek Stage has returned \<open>T\<close>, the engine goes on with the Poll Loop
  from the Cursor \<open>T - 1s - 1ns\<close>, so the first query of the loop is the query for
  \<open>LOG\<close> envelopes that starts at \<open>T - 1s\<close>; every query of the loop starts one
  nanosecond after the timestamp of the last envelope emitted before it; and
  whenever the store answers a query of the loop with a batch of envelope objects,
  however many, the loop goes on with the envelopes of that batch that are later
  than the Cursor, every log payload decoded from base64 (the decoder inverts
  \<open>EncodeToString\<close>, lemma \<open>DecodeString_EncodeToString\<close>), and with all of them in
  their order when the batch is sorted. The instances after it are the run against
  the mock log cache of the test, where the payload \<open>aGVsbG8gZnJvbSBsb2ctY2FjaGU=\<close>
  is emitted as \<open>hello from log-cache\<close>, and a run on a batch of two envelopes.
\<close>

theorem tail_first_queries:
  assumes "seek store m s = (tr, Some T, s1)"
  shows "tail store m n s = tr @ poll_loop store n (T - 1000000001) s1 \<and>
         (0 < n \<longrightarrow>
            (\<exists>rest. poll_loop store n (T - 1000000001) s1 =
               Queried \<lparr>start_time = T - 1000000000, descending = False, limit = None,
                        envelope_types = Some ''LOG''\<rparr> # rest)) \<and>
         follows_cursor (T - 1000000001) (poll_loop store n (T - 1000000001) s1) \<and>
         (store s' (RawQuery_of \<lparr>start_time = c + 1, descending = False, limit = None,
                                 envelope_types = Some ''LOG''\<rparr>) = (Inr (JObject kvs), s'') \<longrightarrow>
          map_of kvs ''envelopes'' = Some (JObject ev) \<longrightarrow>
          map_of ev ''batch'' = Some (JArray items) \<longrightarrow>
          list_all2 encodes items es \<longrightarrow>
          (\<forall>e \<in> set es. minInt64 \<le> timestamp e \<and> timestamp e \<le> maxInt64) \<longrightarrow>
            poll_loop store (Suc k) c s' =
              Queried \<lparr>start_time = c + 1, descending = False, limit = None,
                       envelope_types = Some ''LOG''\<rparr>
              # (if es = [] then Waited # poll_loop store k c s''
                 else fst (emit_batch c es) @ poll_loop store k (snd (emit_batch c es)) s'')) \<and>
         (sorted_wrt (<) (c # map timestamp es) \<longrightarrow>
            emit_batch c es = (map Emitted es, last (c # map timestamp es)))"
proof -
  have a: "tail store m n s = tr @ poll_loop store n (T - 1000000001) s1"
    using assms by (simp add: tail_def second_def)
  have b: "\<exists>rest. poll_loop store n (T - 1000000001) s1 =
               Queried \<lparr>start_time = T - 1000000000, descending = False, limit = None,
                        envelope_types = Some ''LOG''\<rparr> # rest" if "0 < n"
  proof -
    from that obtain j where "n = Suc j" by (cases n) auto
    with poll_loop_head [of store j "T - 1000000001" s1] show ?thesis
      by (simp add: poll_query_def)
  qed
  have c: "follows_cursor (T - 1000000001) (poll_loop store n (T - 1000000001) s1)"
    by (rule poll_loop_follows_cursor)
  have d: "poll_loop store (Suc k) c s' =
              Queried \<lparr>start_time = c + 1, descending = False, limit = None,
                       envelope_types = Some ''LOG''\<rparr>
              # (if es = [] then Waited # poll_loop store k c s''
                 else fst (emit_batch c es) @ poll_loop store k (snd (emit_batch c es)) s'')"
    if r: "store s' (RawQuery_of \<lparr>start_time = c + 1, descending = False, limit = None,
                                 envelope_types = Some ''LOG''\<rparr>) = (Inr (JObject kvs), s'')"
      and e1: "map_of kvs ''envelopes'' = Some (JObject ev)"
      and e2: "map_of ev ''batch'' = Some (JArray items)"
      and enc: "list_all2 encodes items es"
      and rng: "\<forall>e \<in> set es. minInt64 \<le> timestamp e \<and> timestamp e \<le> maxInt64"
  proof -
    have "parseResponse (JObject kvs) = Inr es"
      using e1 e2 parseBatch_encodes [OF enc rng] by (simp add: parseResponse_def)
    with r have f: "fetch store s' (poll_query (c + 1)) = (Inr es, s'')"
      by (simp add: fetch_def poll_query_def)
    show ?thesis
    proof (cases es)
      case Nil
      with f show ?thesis by (simp add: poll_query_def)
    next
      case (Cons x xs)
      with f show ?thesis
        by (cases "emit_batch c (x # xs)") (simp add: poll_query_def)
    qed
  qed
  have e: "emit_batch c es = (map Emitted es, last (c # map timestamp es))"
    if "sorted_wrt (<) (c # map timestamp es)"
    using that by (rule emit_batch_sorted)
  from a b c d e show ?thesis by blast
qed

theorem tail_first_queries_witness:
  "tail mock_log_cache 1 2 False =
     [Queried seek_query,
      Queried \<lparr>start_time = 1581447006352020890 - 1000000000, descending = False, limit = None,
               envelope_types = Some ''LOG''\<rparr>,
      Emitted \<lparr>timestamp = 1581447009352020890,
               sourceID = ''d5d27772-315f-474b-8673-57e34ce2db2c'',
               log = Some (''hello from log-cache'', ''OUT'')\<rparr>,
      Queried \<lparr>start_time = 1581447009352020890 + 1, descending = False, limit = None,
               envelope_types = Some ''LOG''\<rparr>,
      Waited] \<and>
   tail scripted 1 1
     [example_batch [1000000005],
      Inr (JObject [(''envelopes'', JObject [(''batch'', JArray
        [JObject [(''timestamp'', JString ''5''),
                  (''log'', JObject [(''payload'', JString ''aGVsbG8=''), (''type'', JString ''OUT'')])],
         JObject [(''timestamp'', JString ''7''), (''source_id'', JString ''app''),
                  (''log'', JObject [(''payload'', JString ''d29ybGQh''), (''type'', JString ''ERR'')])]])])])] =
     [Queried seek_query,
      Queried \<lparr>start_time = 5, descending = False, limit = None, envelope_types = Some ''LOG''\<rparr>,
      Emitted \<lparr>timestamp = 5, sourceID = [], log = Some (''hello'', ''OUT'')\<rparr>,
      Emitted \<lparr>timestamp = 7, sourceID = ''app'', log = Some (''world!'', ''ERR'')\<rparr>]"
proof -
  let ?T = "1581447006352020890 :: int"
  let ?item = "JObject [(''timestamp'', JString ''1581447009352020890''),
                 (''source_id'', JString ''d5d27772-315f-474b-8673-57e34ce2db2c''),
                 (''tags'', JObject [(''__v1_type'', JString ''LogMessage'')]),
                 (''log'', JObject [(''payload'', JString ''aGVsbG8gZnJvbSBsb2ctY2FjaGU=''),
                                   (''type'', JString ''OUT'')])]"
  let ?ev = "[(''batch'', JArray [?item])]"
  let ?kvs = "[(''envelopes'', JObject ?ev)]"
  let ?e = "\<lparr>timestamp = 1581447009352020890,
              sourceID = ''d5d27772-315f-474b-8673-57e34ce2db2c'',
              log = Some (''hello from log-cache'', ''OUT'')\<rparr>"
  have a1: "seek mock_log_cache 1 False = ([Queried seek_query], Some ?T, False)"
    by code_simp
  have a2: "mock_log_cache False
              (RawQuery_of \<lparr>start_time = (?T - 1000000001) + 1, descending = False, limit = None,
                             envelope_types = Some ''LOG''\<rparr>) = (Inr (JObject ?kvs), False)"
    by code_simp
  have a3: "list_all2 encodes [?item] [?e]"
    by code_simp
  have a4: "poll_loop mock_log_cache 1 1581447009352020890 False =
              [Queried \<lparr>start_time = 1581447009352020890 + 1, descending = False, limit = None,
                        envelope_types = Some ''LOG''\<rparr>, Waited]"
    by code_simp
  have A: "tail mock_log_cache 1 2 False =
     [Queried seek_query,
      Queried \<lparr>start_time = 1581447006352020890 - 1000000000, descending = False, limit = None,
               envelope_types = Some ''LOG''\<rparr>,
      Emitted ?e,
      Queried \<lparr>start_time = 1581447009352020890 + 1, descending = False, limit = None,
               envelope_types = Some ''LOG''\<rparr>,
      Waited]"
    using tail_first_queries [OF a1, where n = 2 and s' = False and c = "?T - 1000000001"
        and kvs = ?kvs and s'' = False and ev = ?ev and items = "[?item]" and es = "[?e]" and k = 1]
      a2 a3 a4
    by (simp add: minInt64_def maxInt64_def numeral_2_eq_2)
  let ?i1 = "JObject [(''timestamp'', JString ''5''),
                  (''log'', JObject [(''payload'', JString ''aGVsbG8=''), (''type'', JString ''OUT'')])]"
  let ?i2 = "JObject [(''timestamp'', JString ''7''), (''source_id'', JString ''app''),
                  (''log'', JObject [(''payload'', JString ''d29ybGQh''), (''type'', JString ''ERR'')])]"
  let ?ev2 = "[(''batch'', JArray [?i1, ?i2])]"
  let ?kvs2 = "[(''envelopes'', JObject ?ev2)]"
  let ?e1 = "\<lparr>timestamp = 5, sourceID = [], log = Some (''hello'', ''OUT'')\<rparr>"
  let ?e2 = "\<lparr>timestamp = 7, sourceID = ''app'', log = Some (''world!'', ''ERR'')\<rparr>"
  have b1: "seek scripted 1 [example_batch [1000000005], Inr (JObject ?kvs2)] =
              ([Queried seek_query], Some 1000000005, [Inr (JObject ?kvs2)])"
    by code_simp
  have b2: "scripted [Inr (JObject ?kvs2)]
              (RawQuery_of \<lparr>start_time = (1000000005 - 1000000001) + 1, descending = False,
                             limit = None, envelope_types = Some ''LOG''\<rparr>) = (Inr (JObject ?kvs2), [])"
    by (simp add: scripted_def)
  have b3: "list_all2 encodes [?i1, ?i2] [?e1, ?e2]"
    by code_simp
  have B: "tail scripted 1 1 [example_batch [1000000005], Inr (JObject ?kvs2)] =
     [Queried seek_query,
      Queried \<lparr>start_time = 5, descending = False, limit = None, envelope_types = Some ''LOG''\<rparr>,
      Emitted ?e1, Emitted ?e2]"
    using tail_first_queries [OF b1, where n = 1 and s' = "[Inr (JObject ?kvs2)]"
        and c = "1000000005 - 1000000001" and kvs = ?kvs2 and s'' = "[]" and ev = ?ev2
        and items = "[?i1, ?i2]" and es = "[?e1, ?e2]" and k = 0]
      b2 b3
    by (simp add: minInt64_def maxInt64_def)
  from A B show ?thesis by simp
qed

text \<open>
  C6: when the store answers the seek query with \<open>N\<close> empty batches and then with
  a non-empty one, the Seek Stage issues \<open>N + 1\<close> queries, all the same descending
  query for one envelope from the zero instant, with a wait after each empty
  answer and no error, and returns the timestamp of the first envelope of the last
  answer. The instance is the mock log cache of the test with
  \<open>returnEmptyEnvelope\<close> set.
\<close>

theorem seek_retries_through_emptiness:
  assumes "\<forall>i<N. fetch store (\<sigma> i) seek_query = (Inr [], \<sigma> (Suc i))"
    and "fetch store (\<sigma> N) seek_query = (Inr (e # es), s')"
    and "N < m"
  shows "seek store m (\<sigma> 0) =
           (concat (replicate N [Queried seek_query, Waited]) @ [Queried seek_query],
            Some (timestamp e), s') \<and>
         length (filter (\<lambda>ev. ev = Queried seek_query)
           (fst (seek store m (\<sigma> 0)))) = N + 1 \<and>
         seek_query = \<lparr>start_time = zeroTimeUnixNano, descending = True, limit = Some 1,
                       envelope_types = None\<rparr>"
proof -
  have "length (filter (\<lambda>ev. ev = Queried seek_query)
          (concat (replicate N [Queried seek_query, Waited]))) = N"
    by (induction N) simp_all
  with seek_retries [OF assms] show ?thesis by (simp add: seek_query_def)
qed

theorem seek_retries_through_emptiness_witness:
  "seek mock_log_cache 5 True =
     ([Queried seek_query, Waited, Queried seek_query], Some 1581447006352020890, False)"
proof -
  have a: "fetch mock_log_cache True seek_query = (Inr [], False)"
    by code_simp
  have b: "fetch mock_log_cache False seek_query =
             (Inr [\<lparr>timestamp = 1581447006352020890,
                    sourceID = ''d5d27772-315f-474b-8673-57e34ce2db2c'', log = None\<rparr>], False)"
    by code_simp
  from seek_retries_through_emptiness
    [of 1 mock_log_cache "\<lambda>i. i = 0" _ "[]" False 5] a b
  show ?thesis by simp
qed

text \<open>
  C7: when a poll query returns an empty batch, the loop waits and goes on with the
  same Cursor, and its next query is the same query again; nothing is pushed to
  the error channel for the empty batch.
\<close>

theorem empty_batch_keeps_boundary:
  assumes "fetch store s (poll_query (cursor + 1)) = (Inr [], s')"
  shows "poll_loop store (Suc (Suc n)) cursor s =
           Queried (poll_query (cursor + 1)) # Waited # poll_loop store (Suc n) cursor s' \<and>
         (\<exists>rest. poll_loop store (Suc n) cursor s' = Queried (poll_query (cursor + 1)) # rest)"
  using assms poll_loop_head [of store n cursor s'] by simp

theorem empty_batch_keeps_boundary_witness:
  "poll_loop mock_log_cache (Suc (Suc 0)) 1581447009352020890 False =
     [Queried (poll_query 1581447009352020891), Waited,
      Queried (poll_query 1581447009352020891), Waited]"
proof -
  have a: "fetch mock_log_cache False (poll_query (1581447009352020890 + 1)) = (Inr [], False)"
    by code_simp
  have b: "poll_loop mock_log_cache (Suc 0) 1581447009352020890 False =
             [Queried (poll_query 1581447009352020891), Waited]"
    using a by simp
  from empty_batch_keeps_boundary [OF a, of 0] b show ?thesis by simp
qed

text \<open>
  The whole scenario of the test, from an empty log cache: the trace of the
  engine, and the raw query strings the mock log cache is asked.
\<close>

lemma scenario_trace:
  "tail mock_log_cache 3 3 True =
     [Queried seek_query, Waited, Queried seek_query,
      Queried (poll_query 1581447005352020890),
      Emitted \<lparr>timestamp = 1581447009352020890,
               sourceID = ''d5d27772-315f-474b-8673-57e34ce2db2c'',
               log = Some (''hello from log-cache'', ''OUT'')\<rparr>,
      Queried (poll_query 1581447009352020891), Waited,
      Queried (poll_query 1581447009352020891), Waited]"
  by code_simp

lemma scenario_queries:
  "RawQuery_of seek_query = ''descending=true&limit=1&start_time=-6795364578871345152'' \<and>
   RawQuery_of (poll_query 1581447005352020890) = ''envelope_types=LOG&start_time=1581447005352020890'' \<and>
   RawQuery_of (poll_query 1581447009352020891) = ''envelope_types=LOG&start_time=1581447009352020891''"
  by code_simp

end
